theory Spec2Isabelle
  imports Main
begin

section \<open>JavaScript values and the built-ins the client relies on\<close>

text \<open>
  The client of \<^verbatim>\<open>services/api.ts\<close> reads error bodies as untyped JSON
  (\<^verbatim>\<open>errorData: any\<close>), so the model keeps them untyped as well. A number is a
  double, and the client only ever tests it for truth or turns it into text; it is
  represented by the text \<^verbatim>\<open>String(n)\<close> gives it (\<^verbatim>\<open>0\<close>, \<^verbatim>\<open>-3\<close>, \<^verbatim>\<open>1.5\<close>,
  \<^verbatim>\<open>1e+21\<close>), which determines the double up to the sign of zero; a parsed body
  holds no \<^verbatim>\<open>NaN\<close>, so zero is the one falsy number. An object is the
  list of its members in source order, and a lookup takes the last binding of a key, as
  \<^verbatim>\<open>JSON.parse\<close> does. \<^verbatim>\<open>undefined\<close> is \<open>None\<close> of \<open>json option\<close>.
\<close>

type_synonym number = string

datatype json =
    JNull
  | JBool bool
  | JNum number
  | JStr string
  | JArr "json list"
  | JObj "(string \<times> json) list"

text \<open>\<^verbatim>\<open>Array.prototype.join\<close> on strings.\<close>

fun join :: "string \<Rightarrow> string list \<Rightarrow> string" where
  "join sep [] = []"
| "join sep [x] = x"
| "join sep (x # y # ys) = x @ sep @ join sep (y # ys)"

text \<open>\<^verbatim>\<open>String.prototype.includes\<close>.\<close>

fun str_includes :: "string \<Rightarrow> string \<Rightarrow> bool" where
  "str_includes [] sub = (sub = [])"
| "str_includes (c # cs) sub = (take (length sub) (c # cs) = sub \<or> str_includes cs sub)"



text \<open>
  Decimal rendering of an HTTP status in a template literal. A status is an unsigned
  short, far below the size from which JavaScript prints an exponent.
\<close>

fun show_nat :: "nat \<Rightarrow> string" where
  "show_nat n =
     (if n < 10 then [''0123456789'' ! n]
      else show_nat (n div 10) @ [''0123456789'' ! (n mod 10)])"

declare show_nat.simps [simp del]

text \<open>
  \<^verbatim>\<open>String(v)\<close> of a defined value. An array is joined with commas, its
  \<^verbatim>\<open>null\<close> entries rendered empty; a plain object is \<^verbatim>\<open>[object Object]\<close>.
\<close>

fun toStr :: "json \<Rightarrow> string" where
  "toStr JNull = ''null''"
| "toStr (JBool b) = (if b then ''true'' else ''false'')"
| "toStr (JNum n) = n"
| "toStr (JStr s) = s"
| "toStr (JArr xs) = join '','' (map (\<lambda>x. if x = JNull then [] else toStr x) xs)"
| "toStr (JObj kvs) = ''[object Object]''"

text \<open>\<^verbatim>\<open>xs.join(sep)\<close> on an array of values.\<close>

definition arrayJoin :: "string \<Rightarrow> json list \<Rightarrow> string" where
  "arrayJoin sep xs = join sep (map (\<lambda>x. if x = JNull then [] else toStr x) xs)"

text \<open>String conversion of a possibly undefined value (\<^verbatim>\<open>`${v}`\<close>, \<^verbatim>\<open>setItem(k, v)\<close>).\<close>

definition jsString :: "json option \<Rightarrow> string" where
  "jsString v = (case v of None \<Rightarrow> ''undefined'' | Some x \<Rightarrow> toStr x)"

text \<open>Truthiness, as \<^verbatim>\<open>if (errorData)\<close> tests it.\<close>

fun truthy :: "json \<Rightarrow> bool" where
  "truthy JNull = False"
| "truthy (JBool b) = b"
| "truthy (JNum n) = (n \<noteq> ''0'')"
| "truthy (JStr s) = (s \<noteq> [])"
| "truthy (JArr xs) = True"
| "truthy (JObj kvs) = True"

text \<open>
  Property read \<^verbatim>\<open>v.key\<close> for the keys the client reads (\<^verbatim>\<open>detail\<close>,
  \<^verbatim>\<open>message\<close>, \<^verbatim>\<open>loc\<close>, \<^verbatim>\<open>msg\<close>, \<^verbatim>\<open>access_token\<close>, \<^verbatim>\<open>expires_at\<close>):
  only an object can own them, every other non-null value answers \<^verbatim>\<open>undefined\<close>.
  Reading a property of \<^verbatim>\<open>null\<close> throws; the callers below treat that case themselves.
\<close>

fun getProp :: "json \<Rightarrow> string \<Rightarrow> json option" where
  "getProp (JObj kvs) key = map_of (rev kvs) key"
| "getProp v key = None"

section \<open>The typed error and the values a promise can reject with\<close>

text \<open>
  \<^verbatim>\<open>class VoizmaticApiError extends Error\<close>: the message and the three optional fields
  the constructor copies. \<open>thrown\<close> lists what a \<^verbatim>\<open>catch\<close> clause can receive, by the
  \<^verbatim>\<open>instanceof\<close> tests the client makes: the typed error, a \<^verbatim>\<open>TypeError\<close> with its
  message, any other \<^verbatim>\<open>Error\<close> with its name and message, or a value that is no
  \<^verbatim>\<open>Error\<close> at all.
\<close>

record VoizmaticApiError =
  message :: string
  status :: "nat option"
  statusText :: "string option"
  validationErrors :: "json list option"

datatype thrown =
    ApiErr VoizmaticApiError
  | TypeErr string
  | ErrorObj string string
  | Thrown json

text \<open>\<^verbatim>\<open>interface ApiError\<close>, the constructor's argument.\<close>

record ApiError = VoizmaticApiError +
  originalError :: "thrown option"

text \<open>The constructor copies four fields; \<^verbatim>\<open>originalError\<close> is not among them.\<close>

definition newVoizmaticApiError :: "ApiError \<Rightarrow> VoizmaticApiError" where
  "newVoizmaticApiError apiError =
     \<lparr>message = message apiError, status = status apiError,
      statusText = statusText apiError, validationErrors = validationErrors apiError\<rparr>"

text \<open>\<^verbatim>\<open>xs.map(f)\<close> with a callback that may throw: the first throw ends the map.\<close>

fun mapE :: "('a \<Rightarrow> 'e + 'b) \<Rightarrow> 'a list \<Rightarrow> 'e + 'b list" where
  "mapE f [] = Inr []"
| "mapE f (x # xs) =
     (case f x of
        Inl e \<Rightarrow> Inl e
      | Inr y \<Rightarrow> (case mapE f xs of Inl e \<Rightarrow> Inl e | Inr ys \<Rightarrow> Inr (y # ys)))"

text \<open>
  The callback both formatters map over the \<^verbatim>\<open>detail\<close> entries:
  \<^verbatim>\<open>err => { const field = err.loc.slice(1).join('.') || 'field'; return `${field}: ${err.msg}`; }\<close>.
  Nothing checks that an entry is a \<^verbatim>\<open>ValidationError\<close>: unless \<^verbatim>\<open>err\<close> is an object
  whose \<^verbatim>\<open>loc\<close> is an array, \<^verbatim>\<open>err.loc.slice(1).join('.')\<close> raises a
  \<^verbatim>\<open>TypeError\<close> (its wording is the engine's; V8's is used here).
\<close>

definition fieldLine :: "json \<Rightarrow> thrown + string" where
  "fieldLine err =
     (case err of
        JNull \<Rightarrow> Inl (TypeErr ''Cannot read properties of null (reading 'loc')'')
      | JObj kvs \<Rightarrow>
          (case getProp err ''loc'' of
             Some (JArr loc) \<Rightarrow>
               (let joined = arrayJoin ''.'' (drop 1 loc);
                    field = (if joined = [] then ''field'' else joined)
                in Inr (field @ '': '' @ jsString (getProp err ''msg'')))
           | Some JNull \<Rightarrow> Inl (TypeErr ''Cannot read properties of null (reading 'slice')'')
           | Some (JStr s) \<Rightarrow> Inl (TypeErr ''err.loc.slice(...).join is not a function'')
           | Some other \<Rightarrow> Inl (TypeErr ''err.loc.slice is not a function'')
           | None \<Rightarrow> Inl (TypeErr ''Cannot read properties of undefined (reading 'slice')''))
      | other \<Rightarrow> Inl (TypeErr ''Cannot read properties of undefined (reading 'slice')''))"

text \<open>\<^verbatim>\<open>VoizmaticApiError.getValidationErrorMessage\<close>: the lines joined by a newline.\<close>

definition getValidationErrorMessage :: "VoizmaticApiError \<Rightarrow> thrown + string" where
  "getValidationErrorMessage e =
     (case validationErrors e of
        None \<Rightarrow> Inr (message e)
      | Some ves \<Rightarrow>
          if length ves = 0 then Inr (message e)
          else (case mapE fieldLine ves of
                  Inl t \<Rightarrow> Inl t
                | Inr ls \<Rightarrow> Inr (join [CHR 0x0A] ls)))"

section \<open>Requests, responses and the browser state\<close>

text \<open>
  A request as \<^verbatim>\<open>fetch(url, init)\<close> receives it. A header object is a list of
  name/value pairs with distinct names; \<open>assign\<close> is \<^verbatim>\<open>headers[k] = v\<close> and
  \<open>spread\<close> is \<^verbatim>\<open>{ ...base, ...extra }\<close>. A multipart body is the list of its parts.
\<close>

type_synonym headers = "(string \<times> string) list"

datatype body = TextBody string | FormData "(string \<times> string) list"

record RequestInit =
  init_method :: "string option"
  init_body :: "body option"
  init_headers :: "headers option"

record request =
  req_url :: string
  req_method :: "string option"
  req_body :: "body option"
  req_headers :: headers

fun assign :: "string \<Rightarrow> string \<Rightarrow> headers \<Rightarrow> headers" where
  "assign k v [] = [(k, v)]"
| "assign k v ((k', v') # hs) = (if k' = k then (k, v) # hs else (k', v') # assign k v hs)"

definition spread :: "headers \<Rightarrow> headers \<Rightarrow> headers" where
  "spread base extra = fold (\<lambda>(k, v). assign k v) extra base"

text \<open>
  A response, by what the client asks of it: \<^verbatim>\<open>status\<close>, \<^verbatim>\<open>statusText\<close>,
  \<^verbatim>\<open>headers.get('content-type')\<close>, and the outcomes of \<^verbatim>\<open>await response.json()\<close>
  and \<^verbatim>\<open>await response.blob()\<close>, each of which may reject.
\<close>

record response =
  resp_status :: nat
  resp_statusText :: string
  resp_contentType :: "string option"
  resp_json :: "thrown + json"
  resp_blob :: "thrown + string"

definition ok :: "response \<Rightarrow> bool" where
  "ok r = (200 \<le> resp_status r \<and> resp_status r \<le> 299)"

text \<open>
  What the client reads and writes outside its own variables: \<^verbatim>\<open>localStorage\<close>
  (taken to answer every call), the callbacks handed to \<^verbatim>\<open>setTimeout\<close> and still
  pending (delay in milliseconds, and the address each one assigns to
  \<^verbatim>\<open>window.location.href\<close>), the current address, the first argument of every
  \<^verbatim>\<open>console.warn\<close>, the requests handed to \<^verbatim>\<open>fetch\<close>, and the files saved through
  a synthetic anchor (file name and content).
\<close>

record browser =
  localStorage :: "string \<rightharpoonup> string"
  timers :: "(nat \<times> string) list"
  href :: string
  console :: "string list"
  fetched :: "request list"
  saved :: "(string \<times> string) list"

subsection \<open>The token manager\<close>

definition API_BASE_URL :: string where
  "API_BASE_URL = ''https://api.voizmatic.com''"

definition TOKEN_KEY :: string where
  "TOKEN_KEY = ''voizmatic_access_token''"

definition TOKEN_EXPIRY_KEY :: string where
  "TOKEN_EXPIRY_KEY = ''voizmatic_token_expiry''"

definition getToken :: "browser \<Rightarrow> string option" where
  "getToken st = localStorage st TOKEN_KEY"

definition setToken :: "string \<Rightarrow> string \<Rightarrow> browser \<Rightarrow> browser" where
  "setToken token expiresAt st =
     st\<lparr>localStorage := (localStorage st)(TOKEN_KEY \<mapsto> token, TOKEN_EXPIRY_KEY \<mapsto> expiresAt)\<rparr>"

definition clearToken :: "browser \<Rightarrow> browser" where
  "clearToken st =
     st\<lparr>localStorage := (localStorage st)(TOKEN_KEY := None, TOKEN_EXPIRY_KEY := None)\<rparr>"

text \<open>
  \<^verbatim>\<open>isTokenValid\<close>. Two things come from outside: \<open>dateParse\<close>, the time value of
  \<^verbatim>\<open>new Date(expiry)\<close> in milliseconds (\<open>None\<close> for an invalid date, whose comparison
  with anything is false), and \<open>now\<close>, the time value of \<^verbatim>\<open>new Date()\<close>.
  \<^verbatim>\<open>!token\<close> holds of a missing item and of the empty string.
\<close>

definition isTokenValid :: "(string \<Rightarrow> int option) \<Rightarrow> int \<Rightarrow> browser \<Rightarrow> bool" where
  "isTokenValid dateParse now st =
     (case (localStorage st TOKEN_KEY, localStorage st TOKEN_EXPIRY_KEY) of
        (Some token, Some expiry) \<Rightarrow>
          if token = [] \<or> expiry = [] then False
          else (case dateParse expiry of
                  None \<Rightarrow> False
                | Some expiryDate \<Rightarrow> expiryDate > now)
      | _ \<Rightarrow> False)"

section \<open>The transport wrappers\<close>

text \<open>
  The \<^verbatim>\<open>switch (status)\<close> of \<^verbatim>\<open>parseApiError\<close>: given the message and the
  validation errors read from the body, the message the error finally carries.
  \<^verbatim>\<open>message || '...'\<close> replaces the empty message only; \<^verbatim>\<open>!validationErrors\<close>
  holds of \<^verbatim>\<open>undefined\<close> only, an empty array is truthy.
\<close>

definition statusMessage :: "nat \<Rightarrow> string \<Rightarrow> json list option \<Rightarrow> string" where
  "statusMessage code message1 validationErrors1 =
     (if code = 400 then
        (if message1 = [] then ''Bad request. Please check your input.'' else message1)
      else if code = 401 then ''Session expired or invalid. Please login again.''
      else if code = 403 then
        ''Access forbidden. You do not have permission to perform this action.''
      else if code = 404 then ''Resource not found.''
      else if code = 422 then
        (if validationErrors1 = None then ''Validation failed. Please check your input.''
         else message1)
      else if code = 429 then ''Too many requests. Please try again later.''
      else if code = 500 then ''Internal server error. Please try again later.''
      else if code = 502 then ''Bad gateway. The server is temporarily unavailable.''
      else if code = 503 then ''Service unavailable. Please try again later.''
      else if code = 504 then ''Gateway timeout. The request took too long.''
      else message1)"

text \<open>
  \<^verbatim>\<open>parseApiError(response, errorData)\<close>. The first block reads the body, the
  \<^verbatim>\<open>switch\<close> then settles the message. The map over a \<^verbatim>\<open>detail\<close> array can
  throw (see \<open>fieldLine\<close>).
\<close>

definition parseApiError :: "response \<Rightarrow> json option \<Rightarrow> thrown + ApiError" where
  "parseApiError response errorData =
     (let status = resp_status response;
          statusText = resp_statusText response;
          message0 = ''Request failed with status '' @ show_nat status;
          parsed =
            (case errorData of
               None \<Rightarrow> Inr (message0, None)
             | Some d \<Rightarrow>
                 if \<not> truthy d then Inr (message0, None)
                 else (case getProp d ''detail'' of
                         Some (JArr detail) \<Rightarrow>
                           (case mapE fieldLine detail of
                              Inl t \<Rightarrow> Inl t
                            | Inr ls \<Rightarrow> Inr (join ''; '' ls, Some detail))
                       | Some (JStr detail) \<Rightarrow> Inr (detail, None)
                       | _ \<Rightarrow>
                           (case getProp d ''message'' of
                              Some (JStr m) \<Rightarrow> Inr (m, None)
                            | _ \<Rightarrow> Inr (message0, None))))
      in case parsed of
           Inl t \<Rightarrow> Inl t
         | Inr (message1, validationErrors1) \<Rightarrow>
             Inr \<lparr>message = statusMessage status message1 validationErrors1,
                  status = Some status, statusText = Some statusText,
                  validationErrors = validationErrors1, originalError = None\<rparr>)"

text \<open>
  The message \<^verbatim>\<open>parseApiError\<close> gives a status when the body contributes nothing:
  the entry of the \<^verbatim>\<open>switch\<close>, or \<^verbatim>\<open>Request failed with status <code>\<close>
  where the \<^verbatim>\<open>switch\<close> has no entry or, as at 400, keeps a non-empty message.
\<close>

definition fallbackMessage :: "nat \<Rightarrow> string" where
  "fallbackMessage code =
     statusMessage code (''Request failed with status '' @ show_nat code) None"

text \<open>
  The four wrappers repeat the same blocks; each block is one definition here.
  \<open>authHeaders\<close>: the \<^verbatim>\<open>if (requiresAuth)\<close> block (\<^verbatim>\<open>if (token)\<close> fails for a
  missing and for an empty token).
\<close>

definition authHeaders :: "bool \<Rightarrow> browser \<Rightarrow> headers \<Rightarrow> headers" where
  "authHeaders requiresAuth st hs =
     (if requiresAuth then
        (case getToken st of
           Some token \<Rightarrow> if token \<noteq> [] then assign ''Authorization'' (''Bearer '' @ token) hs else hs
         | None \<Rightarrow> hs)
      else hs)"

text \<open>
  The \<^verbatim>\<open>if (response.status === 401)\<close> block: clear the token, hand the redirect to
  \<^verbatim>\<open>setTimeout(..., 100)\<close>, throw.
\<close>

definition unauthorized :: "response \<Rightarrow> browser \<Rightarrow> thrown \<times> browser" where
  "unauthorized response st =
     (let st1 = clearToken st;
          st2 = st1\<lparr>timers := timers st1 @ [(100, ''/'')]\<rparr>
      in (ApiErr (newVoizmaticApiError
            \<lparr>message = ''Session expired. Please login again.'', status = Some 401,
             statusText = Some (resp_statusText response), validationErrors = None,
             originalError = None\<rparr>), st2))"

text \<open>\<^verbatim>\<open>contentType && contentType.includes('application/json')\<close>.\<close>

definition isJson :: "response \<Rightarrow> bool" where
  "isJson response =
     (case resp_contentType response of
        None \<Rightarrow> False
      | Some contentType \<Rightarrow> contentType \<noteq> [] \<and> str_includes contentType ''application/json'')"

text \<open>
  The \<^verbatim>\<open>if (!response.ok)\<close> block: the inner \<^verbatim>\<open>try\<close> reads the body and only warns
  when that fails; \<^verbatim>\<open>parseApiError\<close> runs outside the inner \<^verbatim>\<open>try\<close>.
\<close>

definition notOk :: "string \<Rightarrow> response \<Rightarrow> browser \<Rightarrow> thrown \<times> browser" where
  "notOk warning response st =
     (let (errorData, st1) =
            (if isJson response then
               (case resp_json response of
                  Inl parseError \<Rightarrow> (None, st\<lparr>console := console st @ [warning]\<rparr>)
                | Inr d \<Rightarrow> (Some d, st))
             else (None, st))
      in case parseApiError response errorData of
           Inl t \<Rightarrow> (t, st1)
         | Inr apiError \<Rightarrow> (ApiErr (newVoizmaticApiError apiError), st1))"

text \<open>The outer \<^verbatim>\<open>catch (error)\<close> block, with the two messages that differ by wrapper.\<close>

definition rethrow :: "string \<Rightarrow> string \<Rightarrow> thrown \<Rightarrow> thrown" where
  "rethrow networkMessage otherMessage error =
     (case error of
        ApiErr e \<Rightarrow> ApiErr e
      | TypeErr m \<Rightarrow>
          ApiErr (newVoizmaticApiError
            \<lparr>message = networkMessage, status = None, statusText = None,
             validationErrors = None, originalError = Some error\<rparr>)
      | ErrorObj n m \<Rightarrow>
          ApiErr (newVoizmaticApiError
            \<lparr>message = m, status = None, statusText = None,
             validationErrors = None, originalError = Some error\<rparr>)
      | Thrown v \<Rightarrow>
          ApiErr (newVoizmaticApiError
            \<lparr>message = otherMessage, status = None, statusText = None,
             validationErrors = None, originalError = Some error\<rparr>))"

text \<open>
  The statements before each \<^verbatim>\<open>try\<close>: the header object and, with it, the request
  handed to \<^verbatim>\<open>fetch\<close>. \<^verbatim>\<open>apiCall\<close> starts from the JSON content type and the
  caller's headers and passes the caller's method and body on; the other three start
  from no header.
\<close>

definition callerHeaders :: "RequestInit option \<Rightarrow> headers" where
  "callerHeaders options =
     (case options of
        None \<Rightarrow> []
      | Some opts \<Rightarrow> (case init_headers opts of None \<Rightarrow> [] | Some hs \<Rightarrow> hs))"

definition apiCallRequest :: "string \<Rightarrow> RequestInit option \<Rightarrow> bool \<Rightarrow> browser \<Rightarrow> request" where
  "apiCallRequest endpoint options requiresAuth st =
     (let headers = authHeaders requiresAuth st
            (spread [(''Content-Type'', ''application/json'')] (callerHeaders options))
      in \<lparr>req_url = API_BASE_URL @ endpoint,
          req_method = (case options of None \<Rightarrow> None | Some opts \<Rightarrow> init_method opts),
          req_body = (case options of None \<Rightarrow> None | Some opts \<Rightarrow> init_body opts),
          req_headers = headers\<rparr>)"

definition apiUploadRequest :: "string \<Rightarrow> (string \<times> string) list \<Rightarrow> bool \<Rightarrow> browser \<Rightarrow> request" where
  "apiUploadRequest endpoint formData requiresAuth st =
     (let headers = authHeaders requiresAuth st []
      in \<lparr>req_url = API_BASE_URL @ endpoint, req_method = Some ''POST'',
          req_body = Some (FormData formData), req_headers = headers\<rparr>)"

definition apiDownloadRequest :: "string \<Rightarrow> bool \<Rightarrow> browser \<Rightarrow> request" where
  "apiDownloadRequest endpoint requiresAuth st =
     (let headers = authHeaders requiresAuth st []
      in \<lparr>req_url = API_BASE_URL @ endpoint, req_method = Some ''GET'',
          req_body = None, req_headers = headers\<rparr>)"

text \<open>
  \<^verbatim>\<open>apiCall(endpoint, options, requiresAuth)\<close>. \<open>fetch\<close> is the network: what the
  request resolves or rejects with. The result pairs what the returned promise settles
  with (\<open>Inl\<close>: rejected) and the browser state at that moment.
\<close>

definition apiCall ::
  "(request \<Rightarrow> thrown + response) \<Rightarrow> string \<Rightarrow> RequestInit option \<Rightarrow> bool \<Rightarrow> browser
     \<Rightarrow> (thrown + json) \<times> browser" where
  "apiCall fetch endpoint options requiresAuth st =
     (let req = apiCallRequest endpoint options requiresAuth st;
          st1 = st\<lparr>fetched := fetched st @ [req]\<rparr>;
          (result, st2) =
            (case fetch req of
               Inl error \<Rightarrow> (Inl error, st1)
             | Inr response \<Rightarrow>
                 if resp_status response = 401 then
                   (let (t, st') = unauthorized response st1 in (Inl t, st'))
                 else if \<not> ok response then
                   (let (t, st') = notOk ''Failed to parse error response:'' response st1 in (Inl t, st'))
                 else if isJson response then (resp_json response, st1)
                 else (Inr (JObj []), st1))
      in case result of
           Inl error \<Rightarrow>
             (Inl (rethrow ''Network error. Please check your internet connection.''
                     ''An unexpected error occurred'' error), st2)
         | Inr payload \<Rightarrow> (Inr payload, st2))"

text \<open>\<^verbatim>\<open>apiUpload(endpoint, formData, requiresAuth)\<close>: a multipart POST.\<close>

definition apiUpload ::
  "(request \<Rightarrow> thrown + response) \<Rightarrow> string \<Rightarrow> (string \<times> string) list \<Rightarrow> bool \<Rightarrow> browser
     \<Rightarrow> (thrown + json) \<times> browser" where
  "apiUpload fetch endpoint formData requiresAuth st =
     (let req = apiUploadRequest endpoint formData requiresAuth st;
          st1 = st\<lparr>fetched := fetched st @ [req]\<rparr>;
          (result, st2) =
            (case fetch req of
               Inl error \<Rightarrow> (Inl error, st1)
             | Inr response \<Rightarrow>
                 if resp_status response = 401 then
                   (let (t, st') = unauthorized response st1 in (Inl t, st'))
                 else if \<not> ok response then
                   (let (t, st') = notOk ''Failed to parse upload error response:'' response st1 in (Inl t, st'))
                 else (resp_json response, st1))
      in case result of
           Inl error \<Rightarrow>
             (Inl (rethrow ''Network error during upload. Please check your internet connection.''
                     ''Upload failed'' error), st2)
         | Inr payload \<Rightarrow> (Inr payload, st2))"

text \<open>
  \<^verbatim>\<open>apiDownload(endpoint, filename, requiresAuth)\<close>: the content is saved through a
  synthetic anchor and nothing is returned.
\<close>

definition apiDownload ::
  "(request \<Rightarrow> thrown + response) \<Rightarrow> string \<Rightarrow> string \<Rightarrow> bool \<Rightarrow> browser
     \<Rightarrow> (thrown + unit) \<times> browser" where
  "apiDownload fetch endpoint filename requiresAuth st =
     (let req = apiDownloadRequest endpoint requiresAuth st;
          st1 = st\<lparr>fetched := fetched st @ [req]\<rparr>;
          (result, st2) =
            (case fetch req of
               Inl error \<Rightarrow> (Inl error, st1)
             | Inr response \<Rightarrow>
                 if resp_status response = 401 then
                   (let (t, st') = unauthorized response st1 in (Inl t, st'))
                 else if \<not> ok response then
                   (let (t, st') = notOk ''Failed to parse download error response:'' response st1 in (Inl t, st'))
                 else (case resp_blob response of
                         Inl error \<Rightarrow> (Inl error, st1)
                       | Inr blob \<Rightarrow> (Inr (), st1\<lparr>saved := saved st1 @ [(filename, blob)]\<rparr>)))
      in case result of
           Inl error \<Rightarrow>
             (Inl (rethrow ''Network error during download. Please check your internet connection.''
                     ''Download failed'' error), st2)
         | Inr payload \<Rightarrow> (Inr payload, st2))"

text \<open>\<^verbatim>\<open>apiDownloadBlob(endpoint, requiresAuth)\<close>: the content is returned.\<close>

definition apiDownloadBlob ::
  "(request \<Rightarrow> thrown + response) \<Rightarrow> string \<Rightarrow> bool \<Rightarrow> browser
     \<Rightarrow> (thrown + string) \<times> browser" where
  "apiDownloadBlob fetch endpoint requiresAuth st =
     (let req = apiDownloadRequest endpoint requiresAuth st;
          st1 = st\<lparr>fetched := fetched st @ [req]\<rparr>;
          (result, st2) =
            (case fetch req of
               Inl error \<Rightarrow> (Inl error, st1)
             | Inr response \<Rightarrow>
                 if resp_status response = 401 then
                   (let (t, st') = unauthorized response st1 in (Inl t, st'))
                 else if \<not> ok response then
                   (let (t, st') = notOk ''Failed to parse download error response:'' response st1 in (Inl t, st'))
                 else (resp_blob response, st1))
      in case result of
           Inl error \<Rightarrow>
             (Inl (rethrow ''Network error during download. Please check your internet connection.''
                     ''Download failed'' error), st2)
         | Inr payload \<Rightarrow> (Inr payload, st2))"

text \<open>
  \<^verbatim>\<open>api.auth.login(credentials)\<close>, with \<open>credentials\<close> the text
  \<^verbatim>\<open>JSON.stringify\<close> gave. The token and the expiry are read off whatever the call
  returned and stored as strings; reading them off \<^verbatim>\<open>null\<close> throws.
\<close>

definition login ::
  "(request \<Rightarrow> thrown + response) \<Rightarrow> string \<Rightarrow> browser \<Rightarrow> (thrown + json) \<times> browser" where
  "login fetch credentials st =
     (case apiCall fetch ''/api/auth/login''
             (Some \<lparr>init_method = Some ''POST'', init_body = Some (TextBody credentials),
                    init_headers = None\<rparr>) False st of
        (Inl error, st1) \<Rightarrow> (Inl error, st1)
      | (Inr response, st1) \<Rightarrow>
          (case response of
             JNull \<Rightarrow>
               (Inl (TypeErr ''Cannot read properties of null (reading 'access_token')''), st1)
           | _ \<Rightarrow>
               (Inr response,
                setToken (jsString (getProp response ''access_token''))
                         (jsString (getProp response ''expires_at'')) st1)))"

section \<open>The error utilities\<close>

text \<open>
  \<^verbatim>\<open>utils/errorHandling.ts\<close>. An \<^verbatim>\<open>unknown\<close> error is a value of \<open>thrown\<close>.
  \<^verbatim>\<open>getErrorMessage\<close> can itself throw, through \<^verbatim>\<open>getValidationErrorMessage\<close>.
\<close>

definition getErrorMessage :: "thrown \<Rightarrow> thrown + string" where
  "getErrorMessage error =
     (case error of
        ApiErr e \<Rightarrow>
          (case validationErrors e of
             Some ves \<Rightarrow> if length ves > 0 then getValidationErrorMessage e else Inr (message e)
           | None \<Rightarrow> Inr (message e))
      | TypeErr m \<Rightarrow> Inr m
      | ErrorObj n m \<Rightarrow> Inr m
      | Thrown (JStr s) \<Rightarrow> Inr s
      | Thrown (JObj kvs) \<Rightarrow>
          (case getProp (JObj kvs) ''message'' of
             Some m \<Rightarrow> Inr (toStr m)
           | None \<Rightarrow> Inr ''An unexpected error occurred'')
      | Thrown v \<Rightarrow> Inr ''An unexpected error occurred'')"








section \<open>Well-typed field errors\<close>

text \<open>
  \<^verbatim>\<open>interface ValidationError { loc: (string | number)[]; msg: string; type: string }\<close>.
  \<open>asValidationError\<close> reads a JSON value as one: an object, with members in any order
  and possibly others beside them, whose \<^verbatim>\<open>loc\<close> is an array of strings and numbers
  and whose \<^verbatim>\<open>msg\<close> and \<^verbatim>\<open>type\<close> are strings. \<open>asValidationErrors\<close> reads an array
  whose entries all are. \<open>toJson\<close> is the plain JSON of a field error. \<open>fieldName\<close> is
  the rendered field: the path without its first segment, joined by dots, or
  \<^verbatim>\<open>field\<close> when nothing is left.
\<close>

datatype segment = SegStr string | SegNum number

record ValidationError =
  loc :: "segment list"
  msg :: string
  type :: string

fun segJson :: "segment \<Rightarrow> json" where
  "segJson (SegStr s) = JStr s"
| "segJson (SegNum n) = JNum n"

fun segStr :: "segment \<Rightarrow> string" where
  "segStr (SegStr s) = s"
| "segStr (SegNum n) = n"

fun asSegment :: "json \<Rightarrow> segment option" where
  "asSegment (JStr s) = Some (SegStr s)"
| "asSegment (JNum n) = Some (SegNum n)"
| "asSegment j = None"

definition asValidationError :: "json \<Rightarrow> ValidationError option" where
  "asValidationError j =
     (case j of
        JObj kvs \<Rightarrow>
          (case (getProp j ''loc'', getProp j ''msg'', getProp j ''type'') of
             (Some (JArr l), Some (JStr m), Some (JStr t)) \<Rightarrow>
               (case those (map asSegment l) of
                  Some segments \<Rightarrow> Some \<lparr>loc = segments, msg = m, type = t\<rparr>
                | None \<Rightarrow> None)
           | _ \<Rightarrow> None)
      | _ \<Rightarrow> None)"

definition asValidationErrors :: "json list \<Rightarrow> ValidationError list option" where
  "asValidationErrors detail = those (map asValidationError detail)"

definition toJson :: "ValidationError \<Rightarrow> json" where
  "toJson v =
     JObj [(''loc'', JArr (map segJson (loc v))), (''msg'', JStr (msg v)), (''type'', JStr (type v))]"

definition fieldName :: "segment list \<Rightarrow> string" where
  "fieldName l = (let joined = join ''.'' (map segStr (drop 1 l))
                  in if joined = [] then ''field'' else joined)"

definition line :: "ValidationError \<Rightarrow> string" where
  "line v = fieldName (loc v) @ '': '' @ msg v"

section \<open>Notions used to state the properties\<close>

text \<open>
  The skeleton the four wrappers share, after the request is built: the \<^verbatim>\<open>try\<close>
  body on the outcome of \<^verbatim>\<open>fetch\<close>, then the \<^verbatim>\<open>catch\<close>. The wrappers differ in
  the warning, the two messages and what they do with a 2xx response (\<open>success\<close>).
  Each wrapper is shown below to be an instance, so that the four are reasoned about at once.
\<close>

definition transport ::
  "string \<Rightarrow> string \<Rightarrow> string \<Rightarrow> (response \<Rightarrow> (thrown + 'a) \<times> browser)
     \<Rightarrow> thrown + response \<Rightarrow> browser \<Rightarrow> (thrown + 'a) \<times> browser" where
  "transport warning networkMessage otherMessage success outcome st1 =
     (case (case outcome of
              Inl error \<Rightarrow> (Inl error, st1)
            | Inr response \<Rightarrow>
                if resp_status response = 401 then
                  (case unauthorized response st1 of (t, st') \<Rightarrow> (Inl t, st'))
                else if \<not> ok response then
                  (case notOk warning response st1 of (t, st') \<Rightarrow> (Inl t, st'))
                else success response) of
        (result, st2) \<Rightarrow>
          (case result of
             Inl error \<Rightarrow> (Inl (rethrow networkMessage otherMessage error), st2)
           | Inr payload \<Rightarrow> (Inr payload, st2)))"

text \<open>
  A settled promise is typed when it is fulfilled or rejected with a
  \<^verbatim>\<open>VoizmaticApiError\<close>. A call fails at the network when \<^verbatim>\<open>fetch\<close> rejects or
  answers outside 200-299.
\<close>

definition typedOutcome :: "thrown + 'a \<Rightarrow> bool" where
  "typedOutcome res =
     (case res of
        Inl t \<Rightarrow> (case t of ApiErr a \<Rightarrow> True | _ \<Rightarrow> False)
      | Inr payload \<Rightarrow> True)"

definition failure :: "thrown + response \<Rightarrow> bool" where
  "failure outcome = (case outcome of Inl t \<Rightarrow> True | Inr r \<Rightarrow> \<not> ok r)"

subsection \<open>Sample inputs\<close>

definition freshBrowser :: browser where
  "freshBrowser =
     \<lparr>localStorage = Map.empty, timers = [], href = ''/dashboard'', console = [],
      fetched = [], saved = []\<rparr>"

definition loggedInBrowser :: browser where
  "loggedInBrowser =
     freshBrowser\<lparr>localStorage :=
       [TOKEN_KEY \<mapsto> ''tok-123'', TOKEN_EXPIRY_KEY \<mapsto> ''2030-01-01T00:00:00Z'']\<rparr>"

text \<open>A response with a JSON content type and the given parsed body.\<close>

definition jsonResponse :: "nat \<Rightarrow> string \<Rightarrow> json \<Rightarrow> response" where
  "jsonResponse code text d =
     \<lparr>resp_status = code, resp_statusText = text,
      resp_contentType = Some ''application/json'', resp_json = Inr d, resp_blob = Inr []\<rparr>"

text \<open>A response that claims JSON and carries an HTML page: \<^verbatim>\<open>json()\<close> rejects.\<close>

definition brokenResponse :: "nat \<Rightarrow> string \<Rightarrow> response" where
  "brokenResponse code text =
     \<lparr>resp_status = code, resp_statusText = text,
      resp_contentType = Some ''application/json'',
      resp_json = Inl (ErrorObj ''SyntaxError'' ''Unexpected token < in JSON at position 0''),
      resp_blob = Inr ''<html>''\<rparr>"

definition phoneRequired :: ValidationError where
  "phoneRequired = \<lparr>loc = [SegStr ''body'', SegStr ''phone''], msg = ''required'', type = ''missing''\<rparr>"

definition ageNotANumber :: ValidationError where
  "ageNotANumber =
     \<lparr>loc = [SegStr ''body'', SegStr ''contacts'', SegNum ''0'', SegStr ''age''],
      msg = ''not a number'', type = ''type_error''\<rparr>"

text \<open>
  A field error as a server sends it, with its members in another order and two more
  beside them; and one whose field is called \<^verbatim>\<open>network_id\<close>.
\<close>

definition phoneRequiredWire :: json where
  "phoneRequiredWire =
     JObj [(''type'', JStr ''missing''), (''loc'', JArr [JStr ''body'', JStr ''phone'']),
           (''msg'', JStr ''required''), (''input'', JNull),
           (''url'', JStr ''https://errors.pydantic.dev/2.5/v/missing'')]"


text \<open>
  A \<^verbatim>\<open>Date\<close> parser that knows one timestamp, 2030-01-01T00:00:00Z, by its time value
  in milliseconds; a browser whose stored token is the empty string; a network that
  answers the login with a token expiring at that timestamp.
\<close>

definition sampleDateParse :: "string \<Rightarrow> int option" where
  "sampleDateParse s = (if s = ''2030-01-01T00:00:00Z'' then Some 1893456000000 else None)"

definition emptyTokenBrowser :: browser where
  "emptyTokenBrowser =
     freshBrowser\<lparr>localStorage :=
       [TOKEN_KEY \<mapsto> [], TOKEN_EXPIRY_KEY \<mapsto> ''2030-01-01T00:00:00Z'']\<rparr>"

definition loginFetch :: "request \<Rightarrow> thrown + response" where
  "loginFetch req =
     Inr (jsonResponse 200 ''OK''
            (JObj [(''access_token'', JStr ''tok-123''), (''token_type'', JStr ''bearer''),
                   (''expires_at'', JStr ''2030-01-01T00:00:00Z'')]))"


definition phoneValidationError :: VoizmaticApiError where
  "phoneValidationError =
     \<lparr>message = ''phone: required'', status = Some 422, statusText = Some ''Unprocessable Entity'',
      validationErrors = Some [toJson phoneRequired]\<rparr>"

section \<open>The wrappers are instances of the skeleton\<close>

lemma apiCall_transport:
  "apiCall fetch endpoint options requiresAuth st =
     transport ''Failed to parse error response:''
       ''Network error. Please check your internet connection.'' ''An unexpected error occurred''
       (\<lambda>response. if isJson response
                    then (resp_json response,
                          st\<lparr>fetched := fetched st @ [apiCallRequest endpoint options requiresAuth st]\<rparr>)
                    else (Inr (JObj []),
                          st\<lparr>fetched := fetched st @ [apiCallRequest endpoint options requiresAuth st]\<rparr>))
       (fetch (apiCallRequest endpoint options requiresAuth st))
       (st\<lparr>fetched := fetched st @ [apiCallRequest endpoint options requiresAuth st]\<rparr>)"
  unfolding apiCall_def transport_def Let_def by (rule refl)

lemma apiUpload_transport:
  "apiUpload fetch endpoint formData requiresAuth st =
     transport ''Failed to parse upload error response:''
       ''Network error during upload. Please check your internet connection.'' ''Upload failed''
       (\<lambda>response. (resp_json response,
                     st\<lparr>fetched := fetched st @ [apiUploadRequest endpoint formData requiresAuth st]\<rparr>))
       (fetch (apiUploadRequest endpoint formData requiresAuth st))
       (st\<lparr>fetched := fetched st @ [apiUploadRequest endpoint formData requiresAuth st]\<rparr>)"
  unfolding apiUpload_def transport_def Let_def by (rule refl)

lemma apiDownload_transport:
  "apiDownload fetch endpoint filename requiresAuth st =
     transport ''Failed to parse download error response:''
       ''Network error during download. Please check your internet connection.'' ''Download failed''
       (\<lambda>response. case resp_blob response of
                      Inl error \<Rightarrow>
                        (Inl error,
                         st\<lparr>fetched := fetched st @ [apiDownloadRequest endpoint requiresAuth st]\<rparr>)
                    | Inr blob \<Rightarrow>
                        (Inr (),
                         st\<lparr>fetched := fetched st @ [apiDownloadRequest endpoint requiresAuth st],
                            saved := saved (st\<lparr>fetched := fetched st @ [apiDownloadRequest endpoint requiresAuth st]\<rparr>) @ [(filename, blob)]\<rparr>))
       (fetch (apiDownloadRequest endpoint requiresAuth st))
       (st\<lparr>fetched := fetched st @ [apiDownloadRequest endpoint requiresAuth st]\<rparr>)"
  unfolding apiDownload_def transport_def Let_def by (rule refl)

lemma apiDownloadBlob_transport:
  "apiDownloadBlob fetch endpoint requiresAuth st =
     transport ''Failed to parse download error response:''
       ''Network error during download. Please check your internet connection.'' ''Download failed''
       (\<lambda>response. (resp_blob response,
                     st\<lparr>fetched := fetched st @ [apiDownloadRequest endpoint requiresAuth st]\<rparr>))
       (fetch (apiDownloadRequest endpoint requiresAuth st))
       (st\<lparr>fetched := fetched st @ [apiDownloadRequest endpoint requiresAuth st]\<rparr>)"
  unfolding apiDownloadBlob_def transport_def Let_def by (rule refl)

section \<open>Properties of the skeleton\<close>

lemma rethrow_typed: "\<exists>a. rethrow m1 m2 e = ApiErr a"
  by (cases e) (simp_all add: rethrow_def)

lemma rethrow_ApiErr: "rethrow m1 m2 (ApiErr a) = ApiErr a"
  by (simp add: rethrow_def)

lemma transport_reject:
  "transport w m1 m2 success (Inl t) st1 = (Inl (rethrow m1 m2 t), st1)"
  by (simp add: transport_def)

lemma transport_401:
  assumes "resp_status r = 401"
  shows "transport w m1 m2 success (Inr r) st1 =
           (Inl (ApiErr \<lparr>message = ''Session expired. Please login again.'', status = Some 401,
                         statusText = Some (resp_statusText r), validationErrors = None\<rparr>),
            st1\<lparr>localStorage := (localStorage st1)(TOKEN_KEY := None, TOKEN_EXPIRY_KEY := None),
                timers := timers st1 @ [(100, ''/'')]\<rparr>)"
  using assms
  by (simp add: transport_def unauthorized_def clearToken_def newVoizmaticApiError_def
      rethrow_ApiErr Let_def)

lemma transport_notOk:
  assumes "resp_status r \<noteq> 401" and "\<not> ok r"
  shows "transport w m1 m2 success (Inr r) st1 =
           (Inl (rethrow m1 m2 (fst (notOk w r st1))), snd (notOk w r st1))"
  using assms by (simp add: transport_def split: prod.splits)

lemma transport_ok:
  assumes "ok r"
  shows "transport w m1 m2 success (Inr r) st1 =
           (case success r of
              (Inl error, st2) \<Rightarrow> (Inl (rethrow m1 m2 error), st2)
            | (Inr payload, st2) \<Rightarrow> (Inr payload, st2))"
  using assms by (simp add: transport_def ok_def)

lemma transport_typed: "typedOutcome (fst (transport w m1 m2 success outcome st1))"
proof -
  have "typedOutcome (fst (case p of (result, st2) \<Rightarrow>
          (case result of
             Inl error \<Rightarrow> (Inl (rethrow m1 m2 error), st2)
           | Inr payload \<Rightarrow> (Inr payload, st2))))" for p :: "(thrown + 'a) \<times> browser"
  proof (cases p)
    case (Pair result st2)
    show ?thesis
    proof (cases result)
      case (Inl error)
      obtain a where "rethrow m1 m2 error = ApiErr a"
        using rethrow_typed by blast
      with Pair Inl show ?thesis by (simp add: typedOutcome_def)
    next
      case (Inr payload)
      with Pair show ?thesis by (simp add: typedOutcome_def)
    qed
  qed
  then show ?thesis unfolding transport_def .
qed

lemma transport_failure:
  assumes "failure outcome"
  shows "\<exists>a. fst (transport w m1 m2 success outcome st1) = Inl (ApiErr a)"
proof (cases outcome)
  case (Inl t)
  then show ?thesis using rethrow_typed [of m1 m2 t] by (simp add: transport_reject)
next
  case (Inr r)
  with assms have nok: "\<not> ok r" by (simp add: failure_def)
  show ?thesis
  proof (cases "resp_status r = 401")
    case True
    then show ?thesis using Inr by (simp add: transport_401)
  next
    case False
    then show ?thesis using Inr nok rethrow_typed [of m1 m2 "fst (notOk w r st1)"]
      by (simp add: transport_notOk)
  qed
qed

section \<open>The sample responses\<close>

lemma jsonResponse_fields:
  "resp_status (jsonResponse code text d) = code"
  "resp_statusText (jsonResponse code text d) = text"
  "resp_json (jsonResponse code text d) = Inr d"
  "isJson (jsonResponse code text d)"
  "ok (jsonResponse code text d) = (200 \<le> code \<and> code \<le> 299)"
  by (simp_all add: isJson_def ok_def jsonResponse_def)

lemma brokenResponse_fields:
  "resp_status (brokenResponse code text) = code"
  "resp_statusText (brokenResponse code text) = text"
  "resp_json (brokenResponse code text) = Inl (ErrorObj ''SyntaxError'' ''Unexpected token < in JSON at position 0'')"
  "isJson (brokenResponse code text)"
  "ok (brokenResponse code text) = (200 \<le> code \<and> code \<le> 299)"
  by (simp_all add: isJson_def ok_def brokenResponse_def)

section \<open>Every failure reaches the caller as the typed error\<close>

text \<open>
  C1. Whatever \<^verbatim>\<open>fetch\<close> does and whatever the response holds, the promise that
  \<^verbatim>\<open>apiCall\<close>, \<^verbatim>\<open>apiUpload\<close>, \<^verbatim>\<open>apiDownload\<close> or \<^verbatim>\<open>apiDownloadBlob\<close>
  returns is either fulfilled or rejected with a \<^verbatim>\<open>VoizmaticApiError\<close>: no
  \<^verbatim>\<open>TypeError\<close>, parse error or other raw value is ever the rejection reason. And a call
  does fail, with such an error, whenever \<^verbatim>\<open>fetch\<close> rejects or the status is outside
  200-299 (which covers an error body that cannot be parsed), and whenever the JSON body
  of a 2xx answer to \<^verbatim>\<open>apiCall\<close> or \<^verbatim>\<open>apiUpload\<close> cannot be parsed.
  \<^verbatim>\<open>localStorage\<close> is taken not to throw.
\<close>

theorem wrappers_reject_with_typed_error:
  "typedOutcome (fst (apiCall fetch endpoint options requiresAuth st)) \<and>
   typedOutcome (fst (apiUpload fetch endpoint formData requiresAuth st)) \<and>
   typedOutcome (fst (apiDownload fetch endpoint filename requiresAuth st)) \<and>
   typedOutcome (fst (apiDownloadBlob fetch endpoint requiresAuth st)) \<and>
   (failure (fetch (apiCallRequest endpoint options requiresAuth st)) \<longrightarrow>
      (\<exists>a. fst (apiCall fetch endpoint options requiresAuth st) = Inl (ApiErr a))) \<and>
   (failure (fetch (apiUploadRequest endpoint formData requiresAuth st)) \<longrightarrow>
      (\<exists>a. fst (apiUpload fetch endpoint formData requiresAuth st) = Inl (ApiErr a))) \<and>
   (failure (fetch (apiDownloadRequest endpoint requiresAuth st)) \<longrightarrow>
      (\<exists>a. fst (apiDownload fetch endpoint filename requiresAuth st) = Inl (ApiErr a)) \<and>
      (\<exists>a. fst (apiDownloadBlob fetch endpoint requiresAuth st) = Inl (ApiErr a))) \<and>
   (fetch (apiCallRequest endpoint options requiresAuth st) = Inr r \<and> ok r \<and> isJson r \<and>
    resp_json r = Inl t \<longrightarrow>
      (\<exists>a. fst (apiCall fetch endpoint options requiresAuth st) = Inl (ApiErr a))) \<and>
   (fetch (apiUploadRequest endpoint formData requiresAuth st) = Inr r \<and> ok r \<and>
    resp_json r = Inl t \<longrightarrow>
      (\<exists>a. fst (apiUpload fetch endpoint formData requiresAuth st) = Inl (ApiErr a)))"
proof -
  have typed:
    "typedOutcome (fst (apiCall fetch endpoint options requiresAuth st))"
    "typedOutcome (fst (apiUpload fetch endpoint formData requiresAuth st))"
    "typedOutcome (fst (apiDownload fetch endpoint filename requiresAuth st))"
    "typedOutcome (fst (apiDownloadBlob fetch endpoint requiresAuth st))"
    by (simp_all only: apiCall_transport apiUpload_transport apiDownload_transport
        apiDownloadBlob_transport transport_typed)
  have failed:
    "failure (fetch (apiCallRequest endpoint options requiresAuth st)) \<Longrightarrow>
       \<exists>a. fst (apiCall fetch endpoint options requiresAuth st) = Inl (ApiErr a)"
    "failure (fetch (apiUploadRequest endpoint formData requiresAuth st)) \<Longrightarrow>
       \<exists>a. fst (apiUpload fetch endpoint formData requiresAuth st) = Inl (ApiErr a)"
    "failure (fetch (apiDownloadRequest endpoint requiresAuth st)) \<Longrightarrow>
       \<exists>a. fst (apiDownload fetch endpoint filename requiresAuth st) = Inl (ApiErr a)"
    "failure (fetch (apiDownloadRequest endpoint requiresAuth st)) \<Longrightarrow>
       \<exists>a. fst (apiDownloadBlob fetch endpoint requiresAuth st) = Inl (ApiErr a)"
    by (simp_all only: apiCall_transport apiUpload_transport apiDownload_transport
        apiDownloadBlob_transport transport_failure)
  have unparsable:
    "\<exists>a. fst (apiCall fetch endpoint options requiresAuth st) = Inl (ApiErr a)"
    if "fetch (apiCallRequest endpoint options requiresAuth st) = Inr r" "ok r" "isJson r"
      "resp_json r = Inl t"
    using that rethrow_typed [of _ _ t]
    by (simp add: apiCall_transport transport_ok)
  have unparsable_upload:
    "\<exists>a. fst (apiUpload fetch endpoint formData requiresAuth st) = Inl (ApiErr a)"
    if "fetch (apiUploadRequest endpoint formData requiresAuth st) = Inr r" "ok r"
      "resp_json r = Inl t"
    using that rethrow_typed [of _ _ t]
    by (simp add: apiUpload_transport transport_ok)
  from typed failed unparsable unparsable_upload show ?thesis by blast
qed

theorem wrappers_reject_with_typed_error_witness:
  "failure (Inl (TypeErr ''Failed to fetch'') :: thrown + response) \<and>
   typedOutcome (fst (apiCall (\<lambda>req. Inl (TypeErr ''Failed to fetch''))
                        ''/api/campaigns'' None True freshBrowser)) \<and>
   (\<exists>a. fst (apiCall (\<lambda>req. Inl (TypeErr ''Failed to fetch''))
                ''/api/campaigns'' None True freshBrowser) = Inl (ApiErr a)) \<and>
   (\<exists>a. fst (apiUpload (\<lambda>req. Inl (TypeErr ''Failed to fetch''))
                ''/api/campaigns'' [] True freshBrowser) = Inl (ApiErr a)) \<and>
   (\<exists>a. fst (apiDownload (\<lambda>req. Inl (TypeErr ''Failed to fetch''))
                ''/api/campaigns'' ''template.csv'' True freshBrowser) = Inl (ApiErr a)) \<and>
   (\<exists>a. fst (apiDownloadBlob (\<lambda>req. Inl (TypeErr ''Failed to fetch''))
                ''/api/campaigns'' True freshBrowser) = Inl (ApiErr a)) \<and>
   fst (apiCall (\<lambda>req. Inl (TypeErr ''Failed to fetch'')) ''/api/campaigns'' None True freshBrowser)
     = Inl (ApiErr \<lparr>message = ''Network error. Please check your internet connection.'',
                     status = None, statusText = None, validationErrors = None\<rparr>) \<and>
   ok (brokenResponse 200 ''OK'') \<and> isJson (brokenResponse 200 ''OK'') \<and>
   (\<exists>a. fst (apiCall (\<lambda>req. Inr (brokenResponse 200 ''OK''))
                ''/api/campaigns'' None True freshBrowser) = Inl (ApiErr a)) \<and>
   (\<exists>a. fst (apiUpload (\<lambda>req. Inr (brokenResponse 200 ''OK''))
                ''/api/campaigns'' [] True freshBrowser) = Inl (ApiErr a))"
proof -
  let ?down = "\<lambda>req :: request. Inl (TypeErr ''Failed to fetch'') :: thrown + response"
  let ?broken = "\<lambda>req :: request. Inr (brokenResponse 200 ''OK'') :: thrown + response"
  have f: "failure (Inl (TypeErr ''Failed to fetch'') :: thrown + response)"
    by (simp add: failure_def)
  have k: "ok (brokenResponse 200 ''OK'')" "isJson (brokenResponse 200 ''OK'')"
    "resp_json (brokenResponse 200 ''OK'')
       = Inl (ErrorObj ''SyntaxError'' ''Unexpected token < in JSON at position 0'')"
    by (simp_all add: brokenResponse_fields)
  note inst = wrappers_reject_with_typed_error
    [where endpoint = "''/api/campaigns''" and options = None and requiresAuth = True
       and st = freshBrowser and formData = "[]" and filename = "''template.csv''"
       and r = "brokenResponse 200 ''OK''"
       and t = "ErrorObj ''SyntaxError'' ''Unexpected token < in JSON at position 0''"]
  from inst [where fetch = ?down]
  have a: "typedOutcome (fst (apiCall ?down ''/api/campaigns'' None True freshBrowser))"
    by blast
  from inst [where fetch = ?down] f
  have b: "\<exists>a. fst (apiCall ?down ''/api/campaigns'' None True freshBrowser) = Inl (ApiErr a)"
    "\<exists>a. fst (apiUpload ?down ''/api/campaigns'' [] True freshBrowser) = Inl (ApiErr a)"
    "\<exists>a. fst (apiDownload ?down ''/api/campaigns'' ''template.csv'' True freshBrowser) = Inl (ApiErr a)"
    "\<exists>a. fst (apiDownloadBlob ?down ''/api/campaigns'' True freshBrowser) = Inl (ApiErr a)"
    by blast+
  have c: "fst (apiCall ?down ''/api/campaigns'' None True freshBrowser)
     = Inl (ApiErr \<lparr>message = ''Network error. Please check your internet connection.'',
                     status = None, statusText = None, validationErrors = None\<rparr>)"
    by (simp add: apiCall_transport transport_reject rethrow_def newVoizmaticApiError_def)
  from inst [where fetch = ?broken] k
  have d: "\<exists>a. fst (apiCall ?broken ''/api/campaigns'' None True freshBrowser) = Inl (ApiErr a)"
    "\<exists>a. fst (apiUpload ?broken ''/api/campaigns'' [] True freshBrowser) = Inl (ApiErr a)"
    by blast+
  from f a b c k(1,2) d show ?thesis by (intro conjI)
qed

section \<open>Field errors\<close>

lemma asSegment_str: "asSegment j = Some g \<Longrightarrow> (if j = JNull then [] else toStr j) = segStr g"
  by (cases j) auto

lemma those_segments_str:
  "those (map asSegment l) = Some segments \<Longrightarrow>
   map (\<lambda>x. if x = JNull then [] else toStr x) l = map segStr segments"
proof (induction l arbitrary: segments)
  case Nil
  then show ?case by simp
next
  case (Cons j l)
  from Cons.prems obtain g gs where g: "asSegment j = Some g"
    and gs: "those (map asSegment l) = Some gs" and e: "segments = g # gs"
    by (auto split: option.splits)
  from Cons.IH [OF gs] asSegment_str [OF g] e show ?case by simp
qed

lemma those_drop:
  "those (map f l) = Some ys \<Longrightarrow> those (map f (drop n l)) = Some (drop n ys)"
proof (induction l arbitrary: ys n)
  case Nil
  then show ?case by simp
next
  case (Cons x l)
  from Cons.prems obtain y ys' where y: "f x = Some y"
    and ys': "those (map f l) = Some ys'" and e: "ys = y # ys'"
    by (auto split: option.splits)
  show ?case
  proof (cases n)
    case 0
    with Cons.prems show ?thesis by simp
  next
    case (Suc k)
    with Cons.IH [OF ys', of k] e show ?thesis by simp
  qed
qed

lemma those_Nil: "those (map f l) = Some ys \<Longrightarrow> (ys = []) = (l = [])"
  by (cases l) (auto split: option.splits)

lemma arrayJoin_segments:
  "those (map asSegment l) = Some segments \<Longrightarrow> arrayJoin sep l = join sep (map segStr segments)"
  by (simp add: arrayJoin_def those_segments_str)

lemma fieldLine_decoded:
  assumes "asValidationError j = Some v"
  shows "fieldLine j = Inr (line v)"
proof -
  from assms obtain kvs l m t segments where j: "j = JObj kvs"
    and l: "getProp j ''loc'' = Some (JArr l)" and m: "getProp j ''msg'' = Some (JStr m)"
    and g: "those (map asSegment l) = Some segments"
    and v: "v = \<lparr>loc = segments, msg = m, type = t\<rparr>"
    by (auto simp: asValidationError_def split: json.splits option.splits)
  from arrayJoin_segments [OF those_drop [OF g, of 1], of "''.''"]
  have "arrayJoin ''.'' (drop 1 l) = join ''.'' (map segStr (drop 1 segments))" .
  with j l m v show ?thesis
    by (simp add: fieldLine_def line_def fieldName_def Let_def jsString_def)
qed

lemma asValidationError_toJson: "asValidationError (toJson v) = Some v"
proof -
  have "those (map asSegment (map segJson l)) = Some l" for l
  proof (induction l)
    case Nil
    show ?case by simp
  next
    case (Cons g l)
    then show ?case by (cases g) simp_all
  qed
  then show ?thesis by (simp add: asValidationError_def toJson_def)
qed

lemma asValidationErrors_toJson: "asValidationErrors (map toJson ves) = Some ves"
  by (induction ves) (simp_all add: asValidationErrors_def asValidationError_toJson)

lemma mapE_fieldLine:
  "asValidationErrors detail = Some ves \<Longrightarrow> mapE fieldLine detail = Inr (map line ves)"
proof (induction detail arbitrary: ves)
  case Nil
  then show ?case by (simp add: asValidationErrors_def)
next
  case (Cons j detail)
  from Cons.prems obtain v vs where v: "asValidationError j = Some v"
    and vs: "asValidationErrors detail = Some vs" and e: "ves = v # vs"
    by (auto simp: asValidationErrors_def split: option.splits)
  from Cons.IH [OF vs] fieldLine_decoded [OF v] e show ?case by simp
qed

lemma asValidationErrors_Nil:
  "asValidationErrors detail = Some ves \<Longrightarrow> (ves = []) = (detail = [])"
  unfolding asValidationErrors_def by (rule those_Nil)

lemma asValidationErrors_length:
  "asValidationErrors detail = Some ves \<Longrightarrow> length ves = length detail"
proof (induction detail arbitrary: ves)
  case Nil
  then show ?case by (simp add: asValidationErrors_def)
next
  case (Cons j detail)
  from Cons.prems obtain v vs where vs: "asValidationErrors detail = Some vs" and e: "ves = v # vs"
    by (auto simp: asValidationErrors_def split: option.splits)
  from Cons.IH [OF vs] e show ?case by simp
qed

lemma line_nonempty: "line v \<noteq> []"
  by (simp add: line_def)

lemma join_lines_nonempty: "ves \<noteq> [] \<Longrightarrow> join sep (map line ves) \<noteq> []"
proof (cases ves)
  case Nil
  assume "ves \<noteq> []"
  with Nil show ?thesis by simp
next
  case (Cons v vs)
  then show ?thesis by (cases vs) (simp_all add: line_nonempty)
qed

lemma join_single: "length xs = 1 \<Longrightarrow> join sep xs = join sep' xs"
  by (cases xs) simp_all

lemma getProp_truthy: "getProp d k = Some v \<Longrightarrow> truthy d"
  by (cases d) simp_all

section \<open>parseApiError\<close>

lemma parseApiError_undefined:
  "parseApiError r None =
     Inr \<lparr>message = fallbackMessage (resp_status r), status = Some (resp_status r),
          statusText = Some (resp_statusText r), validationErrors = None, originalError = None\<rparr>"
  by (simp add: parseApiError_def fallbackMessage_def Let_def)

lemma parseApiError_array:
  assumes "getProp d ''detail'' = Some (JArr detail)"
    and "asValidationErrors detail = Some ves"
  shows "parseApiError r (Some d) =
     Inr \<lparr>message = statusMessage (resp_status r) (join ''; '' (map line ves)) (Some detail),
          status = Some (resp_status r), statusText = Some (resp_statusText r),
          validationErrors = Some detail, originalError = None\<rparr>"
  using assms(1) getProp_truthy [OF assms(1)] mapE_fieldLine [OF assms(2)]
  by (simp add: parseApiError_def Let_def)

lemma parseApiError_string:
  assumes "getProp d ''detail'' = Some (JStr s)"
  shows "parseApiError r (Some d) =
     Inr \<lparr>message = statusMessage (resp_status r) s None,
          status = Some (resp_status r), statusText = Some (resp_statusText r),
          validationErrors = None, originalError = None\<rparr>"
  using assms getProp_truthy [OF assms]
  by (simp add: parseApiError_def Let_def)

lemma parseApiError_plain:
  assumes "\<forall>xs. getProp d ''detail'' \<noteq> Some (JArr xs)"
    and "\<forall>s. getProp d ''detail'' \<noteq> Some (JStr s)"
    and "\<forall>m. getProp d ''message'' \<noteq> Some (JStr m)"
  shows "parseApiError r (Some d) =
     Inr \<lparr>message = fallbackMessage (resp_status r), status = Some (resp_status r),
          statusText = Some (resp_statusText r), validationErrors = None, originalError = None\<rparr>"
  using assms
  by (simp add: parseApiError_def fallbackMessage_def Let_def split: option.splits json.splits)


section \<open>notOk\<close>

lemma notOk_parsed:
  assumes "isJson r" and "resp_json r = Inr d" and "parseApiError r (Some d) = Inr a"
  shows "notOk w r st = (ApiErr (newVoizmaticApiError a), st)"
  using assms by (simp add: notOk_def)

lemma notOk_unread:
  assumes "\<not> isJson r \<or> (\<exists>t. resp_json r = Inl t)"
  shows "notOk w r st =
     (ApiErr \<lparr>message = fallbackMessage (resp_status r), status = Some (resp_status r),
              statusText = Some (resp_statusText r), validationErrors = None\<rparr>,
      if isJson r then st\<lparr>console := console st @ [w]\<rparr> else st)"
  using assms
  by (auto simp: notOk_def parseApiError_undefined newVoizmaticApiError_def)

lemma statusMessage_override:
  "code \<in> {403, 404, 429, 500, 502, 503, 504} \<Longrightarrow> statusMessage code m ve = fallbackMessage code"
  by (auto simp: statusMessage_def fallbackMessage_def)

lemma fallbackMessage_table:
  "fallbackMessage 403 = ''Access forbidden. You do not have permission to perform this action.''"
  "fallbackMessage 404 = ''Resource not found.''"
  "fallbackMessage 422 = ''Validation failed. Please check your input.''"
  "fallbackMessage 429 = ''Too many requests. Please try again later.''"
  "fallbackMessage 500 = ''Internal server error. Please try again later.''"
  "fallbackMessage 502 = ''Bad gateway. The server is temporarily unavailable.''"
  "fallbackMessage 503 = ''Service unavailable. Please try again later.''"
  "fallbackMessage 504 = ''Gateway timeout. The request took too long.''"
  by (simp_all add: fallbackMessage_def statusMessage_def)

lemma apiCall_notOk:
  assumes "fetch (apiCallRequest endpoint options requiresAuth st) = Inr r"
    and "\<not> ok r" and "resp_status r \<noteq> 401"
  shows "apiCall fetch endpoint options requiresAuth st =
     (Inl (rethrow ''Network error. Please check your internet connection.''
              ''An unexpected error occurred''
              (fst (notOk ''Failed to parse error response:'' r
                 (st\<lparr>fetched := fetched st @ [apiCallRequest endpoint options requiresAuth st]\<rparr>)))),
      snd (notOk ''Failed to parse error response:'' r
             (st\<lparr>fetched := fetched st @ [apiCallRequest endpoint options requiresAuth st]\<rparr>)))"
  using assms by (simp add: apiCall_transport transport_notOk)

lemma apiCall_parsed:
  assumes "fetch (apiCallRequest endpoint options requiresAuth st) = Inr r"
    and "\<not> ok r" and "resp_status r \<noteq> 401"
    and "isJson r" and "resp_json r = Inr d" and "parseApiError r (Some d) = Inr a"
  shows "apiCall fetch endpoint options requiresAuth st =
     (Inl (ApiErr (newVoizmaticApiError a)),
      st\<lparr>fetched := fetched st @ [apiCallRequest endpoint options requiresAuth st]\<rparr>)"
  using assms by (simp add: apiCall_notOk notOk_parsed rethrow_ApiErr)

lemma apiCall_unread:
  assumes "fetch (apiCallRequest endpoint options requiresAuth st) = Inr r"
    and "\<not> ok r" and "resp_status r \<noteq> 401"
    and "\<not> isJson r \<or> (\<exists>t. resp_json r = Inl t)"
  shows "apiCall fetch endpoint options requiresAuth st =
     (Inl (ApiErr \<lparr>message = fallbackMessage (resp_status r), status = Some (resp_status r),
                   statusText = Some (resp_statusText r), validationErrors = None\<rparr>),
      st\<lparr>fetched := fetched st @ [apiCallRequest endpoint options requiresAuth st],
         console := (if isJson r then console st @ [''Failed to parse error response:'']
                     else console st)\<rparr>)"
  using assms(1-3) notOk_unread [OF assms(4)]
  by (simp add: apiCall_notOk rethrow_ApiErr)

section \<open>What the error carries, by status and body\<close>

text \<open>
  C3 (amended). Take a response outside 200-299 and other than 401, served with a JSON
  content type, whose parsed body has a \<^verbatim>\<open>detail\<close> array whose entries all are
  well-typed field errors (members in any order, others allowed beside them). The typed
  error then carries the status, and its \<^verbatim>\<open>validationErrors\<close> are that array, in
  order. When the array is not empty, the message is the lines \<^verbatim>\<open><field>: <msg>\<close>
  joined by \<^verbatim>\<open>; \<close>, the field being the \<^verbatim>\<open>loc\<close> path without its first segment,
  joined by dots (or \<^verbatim>\<open>field\<close> when nothing is left) - except for the statuses 403,
  404, 429, 500, 502, 503 and 504, whose fixed message replaces it. Without that
  exception the statement does not hold: see the counterexample below.
\<close>

theorem detail_array_becomes_field_errors:
  assumes "fetch (apiCallRequest endpoint options requiresAuth st) = Inr r"
    and "\<not> ok r" and "resp_status r \<noteq> 401"
    and "isJson r" and "resp_json r = Inr d"
    and "getProp d ''detail'' = Some (JArr detail)"
    and "asValidationErrors detail = Some ves"
  shows "\<exists>a. fst (apiCall fetch endpoint options requiresAuth st) = Inl (ApiErr a) \<and>
           status a = Some (resp_status r) \<and>
           validationErrors a = Some detail \<and>
           (detail \<noteq> [] \<longrightarrow>
              message a =
                (if resp_status r \<in> {403, 404, 429, 500, 502, 503, 504}
                 then fallbackMessage (resp_status r)
                 else join ''; '' (map line ves)))"
proof -
  let ?m = "statusMessage (resp_status r) (join ''; '' (map line ves)) (Some detail)"
  have m: "?m = (if resp_status r \<in> {403, 404, 429, 500, 502, 503, 504}
                 then fallbackMessage (resp_status r)
                 else join ''; '' (map line ves))" if "detail \<noteq> []"
  proof (cases "resp_status r \<in> {403, 404, 429, 500, 502, 503, 504}")
    case True
    then show ?thesis by (simp only: statusMessage_override if_True)
  next
    case False
    from that asValidationErrors_Nil [OF assms(7)] have "ves \<noteq> []" by simp
    with False join_lines_nonempty [of ves "''; ''"] assms(3) show ?thesis
      by (simp add: statusMessage_def)
  qed
  from apiCall_parsed [where fetch = fetch, OF assms(1-5)
      parseApiError_array [OF assms(6,7), where r = r]]
  have "fst (apiCall fetch endpoint options requiresAuth st) =
          Inl (ApiErr \<lparr>message = ?m, status = Some (resp_status r),
                        statusText = Some (resp_statusText r),
                        validationErrors = Some detail\<rparr>)"
    by (simp add: newVoizmaticApiError_def)
  with m show ?thesis by simp
qed

theorem detail_array_becomes_field_errors_witness:
  "\<not> ok (jsonResponse 422 ''Unprocessable Entity'' (JObj [(''detail'', JArr (map toJson [phoneRequired]))])) \<and>
   isJson (jsonResponse 422 ''Unprocessable Entity'' (JObj [(''detail'', JArr (map toJson [phoneRequired]))])) \<and>
   getProp (JObj [(''detail'', JArr (map toJson [phoneRequired]))]) ''detail''
     = Some (JArr (map toJson [phoneRequired])) \<and>
   toJson phoneRequired
     = JObj [(''loc'', JArr [JStr ''body'', JStr ''phone'']), (''msg'', JStr ''required''),
             (''type'', JStr ''missing'')] \<and>
   asValidationErrors [toJson phoneRequired] = Some [phoneRequired] \<and>
   fieldName (loc phoneRequired) = ''phone'' \<and>
   (\<exists>a. fst (apiCall
             (\<lambda>req. Inr (jsonResponse 422 ''Unprocessable Entity''
                            (JObj [(''detail'', JArr (map toJson [phoneRequired]))])))
             ''/api/contacts'' None True freshBrowser) = Inl (ApiErr a) \<and>
        status a = Some 422 \<and>
        validationErrors a = Some [toJson phoneRequired] \<and>
        message a = ''phone: required'') \<and>
   asValidationErrors [phoneRequiredWire] = Some [phoneRequired] \<and>
   (\<exists>a. fst (apiCall
             (\<lambda>req. Inr (jsonResponse 422 ''Unprocessable Entity''
                            (JObj [(''detail'', JArr [phoneRequiredWire])])))
             ''/api/contacts'' None True freshBrowser) = Inl (ApiErr a) \<and>
        status a = Some 422 \<and>
        validationErrors a = Some [phoneRequiredWire] \<and>
        message a = ''phone: required'')"
proof -
  let ?d = "JObj [(''detail'', JArr (map toJson [phoneRequired]))]"
  let ?r = "jsonResponse 422 ''Unprocessable Entity'' ?d"
  have h2: "\<not> ok ?r" and h3: "resp_status ?r \<noteq> 401" and h5: "resp_json ?r = Inr ?d"
    by (simp_all add: ok_def jsonResponse_def)
  have h4: "isJson ?r" by (simp add: jsonResponse_fields)
  have h6: "getProp ?d ''detail'' = Some (JArr (map toJson [phoneRequired]))" by simp
  have h7: "asValidationErrors (map toJson [phoneRequired]) = Some [phoneRequired]"
    by (rule asValidationErrors_toJson)
  have j: "toJson phoneRequired
     = JObj [(''loc'', JArr [JStr ''body'', JStr ''phone'']), (''msg'', JStr ''required''),
             (''type'', JStr ''missing'')]"
    by (simp add: toJson_def phoneRequired_def)
  have f: "fieldName (loc phoneRequired) = ''phone''"
    by (simp add: fieldName_def phoneRequired_def)
  have l: "line phoneRequired = ''phone: required''"
    by (simp add: line_def f) (simp add: phoneRequired_def)
  from detail_array_becomes_field_errors
    [where fetch = "\<lambda>req. Inr ?r" and endpoint = "''/api/contacts''"
       and options = None and requiresAuth = True and st = freshBrowser,
     OF refl h2 h3 h4 h5 h6 h7]
  have a: "\<exists>a. fst (apiCall (\<lambda>req. Inr ?r) ''/api/contacts'' None True freshBrowser) = Inl (ApiErr a) \<and>
        status a = Some 422 \<and>
        validationErrors a = Some [toJson phoneRequired] \<and>
        message a = ''phone: required''"
    by (simp add: jsonResponse_fields l)
  let ?d' = "JObj [(''detail'', JArr [phoneRequiredWire])]"
  let ?r' = "jsonResponse 422 ''Unprocessable Entity'' ?d'"
  have k2: "\<not> ok ?r'" and k3: "resp_status ?r' \<noteq> 401" and k4: "isJson ?r'"
    and k5: "resp_json ?r' = Inr ?d'"
    by (simp_all add: jsonResponse_fields)
  have k6: "getProp ?d' ''detail'' = Some (JArr [phoneRequiredWire])" by simp
  have k7: "asValidationErrors [phoneRequiredWire] = Some [phoneRequired]"
    by (simp add: asValidationErrors_def asValidationError_def phoneRequiredWire_def
        phoneRequired_def)
  from detail_array_becomes_field_errors
    [where fetch = "\<lambda>req. Inr ?r'" and endpoint = "''/api/contacts''"
       and options = None and requiresAuth = True and st = freshBrowser,
     OF refl k2 k3 k4 k5 k6 k7]
  have b: "\<exists>a. fst (apiCall (\<lambda>req. Inr ?r') ''/api/contacts'' None True freshBrowser) = Inl (ApiErr a) \<and>
        status a = Some 422 \<and>
        validationErrors a = Some [phoneRequiredWire] \<and>
        message a = ''phone: required''"
    by (simp add: jsonResponse_fields l)
  have h7': "asValidationErrors [toJson phoneRequired] = Some [phoneRequired]"
    using h7 by simp
  from h2 h4 h6 j h7' f a k7 b show ?thesis by (intro conjI)
qed

theorem detail_array_overridden_counterexample:
  "fst (apiCall
     (\<lambda>req. Inr (jsonResponse 500 ''Internal Server Error''
                    (JObj [(''detail'', JArr [toJson phoneRequired])])))
     ''/api/contacts'' None True freshBrowser)
   = Inl (ApiErr \<lparr>message = ''Internal server error. Please try again later.'',
                   status = Some 500, statusText = Some ''Internal Server Error'',
                   validationErrors = Some [toJson phoneRequired]\<rparr>) \<and>
   join ''; '' [fieldName (loc phoneRequired) @ '': '' @ msg phoneRequired] = ''phone: required'' \<and>
   ''Internal server error. Please try again later.'' \<noteq> ''phone: required''"
proof -
  let ?d = "JObj [(''detail'', JArr (map toJson [phoneRequired]))]"
  let ?r = "jsonResponse 500 ''Internal Server Error'' ?d"
  have h2: "\<not> ok ?r" and h3: "resp_status ?r \<noteq> 401" and h5: "resp_json ?r = Inr ?d"
    by (simp_all add: ok_def jsonResponse_def)
  have h4: "isJson ?r" by (simp add: jsonResponse_fields)
  have h6: "getProp ?d ''detail'' = Some (JArr (map toJson [phoneRequired]))" by simp
  have "fst (apiCall (\<lambda>req. Inr ?r) ''/api/contacts'' None True freshBrowser)
     = Inl (ApiErr \<lparr>message = ''Internal server error. Please try again later.'',
                   status = Some 500, statusText = Some ''Internal Server Error'',
                   validationErrors = Some [toJson phoneRequired]\<rparr>)"
    using apiCall_parsed [where fetch = "\<lambda>req. Inr ?r" and endpoint = "''/api/contacts''"
          and options = None and requiresAuth = True and st = freshBrowser,
        OF refl h2 h3 h4 h5 parseApiError_array [OF h6 asValidationErrors_toJson, where r = ?r]]
    by (simp add: newVoizmaticApiError_def statusMessage_def jsonResponse_fields)
  moreover have "join ''; '' [fieldName (loc phoneRequired) @ '': '' @ msg phoneRequired] = ''phone: required''"
    by (simp add: fieldName_def phoneRequired_def)
  ultimately show ?thesis by simp
qed

text \<open>
  C4 (amended). For a response outside 200-299 and other than 401: a string \<^verbatim>\<open>detail\<close>
  is the message verbatim only when the status is none of 403, 404, 422, 429, 500, 502,
  503, 504, whose fixed message replaces it (at 400 the empty string is replaced by the
  bad-request text). When the status is not 400 and the body was not read, or holds no
  string or array \<^verbatim>\<open>detail\<close> and no string \<^verbatim>\<open>message\<close>, the message is the fixed one
  of those eight statuses and \<^verbatim>\<open>Request failed with status <code>\<close> for a status
  outside them. What a 400 gets when the body gives no message is not part of this
  statement.
\<close>

theorem string_detail_and_fallback_messages:
  assumes "fetch (apiCallRequest endpoint options requiresAuth st) = Inr r"
    and "\<not> ok r" and "resp_status r \<noteq> 401"
  shows "(isJson r \<and> resp_json r = Inr d \<and> getProp d ''detail'' = Some (JStr s) \<longrightarrow>
            fst (apiCall fetch endpoint options requiresAuth st) =
              Inl (ApiErr \<lparr>message =
                             (if resp_status r \<in> {403, 404, 422, 429, 500, 502, 503, 504}
                              then fallbackMessage (resp_status r)
                              else if resp_status r = 400 \<and> s = []
                              then ''Bad request. Please check your input.''
                              else s),
                           status = Some (resp_status r),
                           statusText = Some (resp_statusText r),
                           validationErrors = None\<rparr>)) \<and>
         (resp_status r \<noteq> 400 \<and>
          (\<not> isJson r \<or> (\<exists>t. resp_json r = Inl t) \<or>
           (resp_json r = Inr d \<and> (\<forall>xs. getProp d ''detail'' \<noteq> Some (JArr xs)) \<and>
            (\<forall>x. getProp d ''detail'' \<noteq> Some (JStr x)) \<and>
            (\<forall>m. getProp d ''message'' \<noteq> Some (JStr m)))) \<longrightarrow>
            fst (apiCall fetch endpoint options requiresAuth st) =
              Inl (ApiErr \<lparr>message = fallbackMessage (resp_status r),
                           status = Some (resp_status r),
                           statusText = Some (resp_statusText r),
                           validationErrors = None\<rparr>)) \<and>
         fallbackMessage 403 = ''Access forbidden. You do not have permission to perform this action.'' \<and>
         fallbackMessage 404 = ''Resource not found.'' \<and>
         fallbackMessage 422 = ''Validation failed. Please check your input.'' \<and>
         fallbackMessage 429 = ''Too many requests. Please try again later.'' \<and>
         fallbackMessage 500 = ''Internal server error. Please try again later.'' \<and>
         fallbackMessage 502 = ''Bad gateway. The server is temporarily unavailable.'' \<and>
         fallbackMessage 503 = ''Service unavailable. Please try again later.'' \<and>
         fallbackMessage 504 = ''Gateway timeout. The request took too long.'' \<and>
         (resp_status r \<notin> {400, 403, 404, 422, 429, 500, 502, 503, 504} \<and>
          resp_status r < 65536 \<longrightarrow>
            fallbackMessage (resp_status r) = ''Request failed with status '' @ show_nat (resp_status r))"
proof -
  have a: "fst (apiCall fetch endpoint options requiresAuth st) =
              Inl (ApiErr \<lparr>message =
                             (if resp_status r \<in> {403, 404, 422, 429, 500, 502, 503, 504}
                              then fallbackMessage (resp_status r)
                              else if resp_status r = 400 \<and> s = []
                              then ''Bad request. Please check your input.''
                              else s),
                           status = Some (resp_status r),
                           statusText = Some (resp_statusText r),
                           validationErrors = None\<rparr>)"
    if h: "isJson r" "resp_json r = Inr d" "getProp d ''detail'' = Some (JStr s)"
  proof -
    have m: "statusMessage (resp_status r) s None =
               (if resp_status r \<in> {403, 404, 422, 429, 500, 502, 503, 504}
                then fallbackMessage (resp_status r)
                else if resp_status r = 400 \<and> s = []
                then ''Bad request. Please check your input.''
                else s)"
      using assms(3) by (simp add: statusMessage_def fallbackMessage_def)
    from apiCall_parsed [where fetch = fetch, OF assms(1-3) h(1,2)
        parseApiError_string [OF h(3), where r = r]]
    show ?thesis by (simp add: newVoizmaticApiError_def m)
  qed
  have b: "fst (apiCall fetch endpoint options requiresAuth st) =
              Inl (ApiErr \<lparr>message = fallbackMessage (resp_status r),
                           status = Some (resp_status r),
                           statusText = Some (resp_statusText r),
                           validationErrors = None\<rparr>)"
    if h: "\<not> isJson r \<or> (\<exists>t. resp_json r = Inl t) \<or>
          (resp_json r = Inr d \<and> (\<forall>xs. getProp d ''detail'' \<noteq> Some (JArr xs)) \<and>
           (\<forall>x. getProp d ''detail'' \<noteq> Some (JStr x)) \<and>
           (\<forall>m. getProp d ''message'' \<noteq> Some (JStr m)))"
  proof (cases "\<not> isJson r \<or> (\<exists>t. resp_json r = Inl t)")
    case True
    from apiCall_unread [where fetch = fetch, OF assms(1-3) True] show ?thesis by simp
  next
    case False
    with h have j: "isJson r" and p: "resp_json r = Inr d"
      and q: "\<forall>xs. getProp d ''detail'' \<noteq> Some (JArr xs)"
        "\<forall>x. getProp d ''detail'' \<noteq> Some (JStr x)"
        "\<forall>m. getProp d ''message'' \<noteq> Some (JStr m)"
      by auto
    from apiCall_parsed [where fetch = fetch, OF assms(1-3) j p
        parseApiError_plain [OF q, where r = r]]
    show ?thesis by (simp add: newVoizmaticApiError_def)
  qed
  have c: "fallbackMessage (resp_status r) = ''Request failed with status '' @ show_nat (resp_status r)"
    if "resp_status r \<notin> {400, 403, 404, 422, 429, 500, 502, 503, 504}"
    using that assms(3) by (simp add: fallbackMessage_def statusMessage_def)
  from a b c show ?thesis
    by (simp only: fallbackMessage_table simp_thms) blast
qed

theorem string_detail_and_fallback_messages_witness:
  "\<not> ok (jsonResponse 409 ''Conflict'' (JObj [(''detail'', JStr ''Campaign already running'')])) \<and>
   resp_status (jsonResponse 409 ''Conflict'' (JObj [(''detail'', JStr ''Campaign already running'')])) \<noteq> 401 \<and>
   isJson (jsonResponse 409 ''Conflict'' (JObj [(''detail'', JStr ''Campaign already running'')])) \<and>
   getProp (JObj [(''detail'', JStr ''Campaign already running'')]) ''detail''
     = Some (JStr ''Campaign already running'') \<and>
   fst (apiCall
          (\<lambda>req. Inr (jsonResponse 409 ''Conflict'' (JObj [(''detail'', JStr ''Campaign already running'')])))
          ''/api/campaigns/7/start'' None True freshBrowser)
     = Inl (ApiErr \<lparr>message = ''Campaign already running'', status = Some 409,
                     statusText = Some ''Conflict'', validationErrors = None\<rparr>) \<and>
   \<not> ok (jsonResponse 418 ''I am a teapot'' (JObj [(''error'', JStr ''short and stout'')])) \<and>
   resp_status (jsonResponse 418 ''I am a teapot'' (JObj [(''error'', JStr ''short and stout'')])) \<noteq> 400 \<and>
   getProp (JObj [(''error'', JStr ''short and stout'')]) ''detail'' = None \<and>
   getProp (JObj [(''error'', JStr ''short and stout'')]) ''message'' = None \<and>
   fst (apiCall
          (\<lambda>req. Inr (jsonResponse 418 ''I am a teapot'' (JObj [(''error'', JStr ''short and stout'')])))
          ''/api/campaigns/7/start'' None True freshBrowser)
     = Inl (ApiErr \<lparr>message = ''Request failed with status 418'', status = Some 418,
                     statusText = Some ''I am a teapot'', validationErrors = None\<rparr>)"
proof -
  let ?d = "JObj [(''detail'', JStr ''Campaign already running'')]"
  let ?r = "jsonResponse 409 ''Conflict'' ?d"
  have h2: "\<not> ok ?r" and h3: "resp_status ?r \<noteq> 401" and h4: "isJson ?r"
    and h5: "resp_json ?r = Inr ?d"
    by (simp_all add: jsonResponse_fields)
  have h6: "getProp ?d ''detail'' = Some (JStr ''Campaign already running'')" by simp
  from string_detail_and_fallback_messages
    [where fetch = "\<lambda>req. Inr ?r" and endpoint = "''/api/campaigns/7/start''"
       and options = None and requiresAuth = True and st = freshBrowser
       and d = ?d and s = "''Campaign already running''",
     OF refl h2 h3] h4 h5 h6
  have a: "fst (apiCall (\<lambda>req. Inr ?r) ''/api/campaigns/7/start'' None True freshBrowser)
     = Inl (ApiErr \<lparr>message = ''Campaign already running'', status = Some 409,
                     statusText = Some ''Conflict'', validationErrors = None\<rparr>)"
    by (simp add: jsonResponse_fields)
  let ?d' = "JObj [(''error'', JStr ''short and stout'')]"
  let ?r' = "jsonResponse 418 ''I am a teapot'' ?d'"
  have k2: "\<not> ok ?r'" and k3: "resp_status ?r' \<noteq> 401" and k4: "resp_status ?r' \<noteq> 400"
    and k5: "resp_json ?r' = Inr ?d'"
    by (simp_all add: jsonResponse_fields)
  have k6: "getProp ?d' ''detail'' = None" "getProp ?d' ''message'' = None" by simp_all
  have n: "show_nat 418 = ''418''" by (simp add: show_nat.simps)
  from string_detail_and_fallback_messages
    [where fetch = "\<lambda>req. Inr ?r'" and endpoint = "''/api/campaigns/7/start''"
       and options = None and requiresAuth = True and st = freshBrowser
       and d = ?d' and s = "[]",
     OF refl k2 k3] k5 k6
  have b: "fst (apiCall (\<lambda>req. Inr ?r') ''/api/campaigns/7/start'' None True freshBrowser)
     = Inl (ApiErr \<lparr>message = ''Request failed with status 418'', status = Some 418,
                     statusText = Some ''I am a teapot'', validationErrors = None\<rparr>)"
    by (simp add: jsonResponse_fields n)
  from h2 h3 h4 h6 a k2 k4 k6 b show ?thesis by (intro conjI)
qed

theorem string_detail_overridden_counterexample:
  "getProp (JObj [(''detail'', JStr ''Campaign 7 not found'')]) ''detail''
     = Some (JStr ''Campaign 7 not found'') \<and>
   fst (apiCall
          (\<lambda>req. Inr (jsonResponse 404 ''Not Found'' (JObj [(''detail'', JStr ''Campaign 7 not found'')])))
          ''/api/campaigns/7'' None True freshBrowser)
     = Inl (ApiErr \<lparr>message = ''Resource not found.'', status = Some 404,
                     statusText = Some ''Not Found'', validationErrors = None\<rparr>) \<and>
   ''Resource not found.'' \<noteq> ''Campaign 7 not found''"
proof -
  let ?d = "JObj [(''detail'', JStr ''Campaign 7 not found'')]"
  let ?r = "jsonResponse 404 ''Not Found'' ?d"
  have h2: "\<not> ok ?r" and h3: "resp_status ?r \<noteq> 401" and h4: "isJson ?r"
    and h5: "resp_json ?r = Inr ?d"
    by (simp_all add: jsonResponse_fields)
  have h6: "getProp ?d ''detail'' = Some (JStr ''Campaign 7 not found'')" by simp
  from apiCall_parsed [where fetch = "\<lambda>req. Inr ?r" and endpoint = "''/api/campaigns/7''"
          and options = None and requiresAuth = True and st = freshBrowser,
        OF refl h2 h3 h4 h5 parseApiError_string [OF h6, where r = ?r]]
  have "fst (apiCall (\<lambda>req. Inr ?r) ''/api/campaigns/7'' None True freshBrowser)
     = Inl (ApiErr \<lparr>message = ''Resource not found.'', status = Some 404,
                     statusText = Some ''Not Found'', validationErrors = None\<rparr>)"
    by (simp add: newVoizmaticApiError_def statusMessage_def jsonResponse_fields)
  with h6 show ?thesis by simp
qed

text \<open>
  C6. A 400 whose body cannot be parsed does settle with the typed error of status 400,
  but not with the message the status table has for 400. \<^verbatim>\<open>parseApiError\<close> starts from
  \<^verbatim>\<open>Request failed with status 400\<close>, and its entry for 400,
  \<^verbatim>\<open>message = message || 'Bad request. Please check your input.'\<close>, only replaces an
  empty message: the text of the entry is what an empty message gets, the unread body
  gets the generic one. A 500 with the same body gets the text of its entry.
\<close>

theorem unparsable_400_misses_table_message:
  "fst (apiCall (\<lambda>req. Inr (brokenResponse 400 ''Bad Request''))
          ''/api/contacts/upload'' None True freshBrowser)
     = Inl (ApiErr \<lparr>message = ''Request failed with status 400'', status = Some 400,
                     statusText = Some ''Bad Request'', validationErrors = None\<rparr>) \<and>
   statusMessage 400 [] None = ''Bad request. Please check your input.'' \<and>
   ''Request failed with status 400'' \<noteq> ''Bad request. Please check your input.'' \<and>
   fst (apiCall (\<lambda>req. Inr (brokenResponse 500 ''Internal Server Error''))
          ''/api/contacts/upload'' None True freshBrowser)
     = Inl (ApiErr \<lparr>message = ''Internal server error. Please try again later.'',
                     status = Some 500, statusText = Some ''Internal Server Error'',
                     validationErrors = None\<rparr>)"
proof -
  let ?r = "brokenResponse 400 ''Bad Request''"
  have h2: "\<not> ok ?r" and h3: "resp_status ?r \<noteq> 401"
    and h4: "\<not> isJson ?r \<or> (\<exists>t. resp_json ?r = Inl t)"
    by (simp_all add: brokenResponse_fields)
  have n: "show_nat 400 = ''400''" by (simp add: show_nat.simps)
  from apiCall_unread
    [where fetch = "\<lambda>req. Inr ?r" and endpoint = "''/api/contacts/upload''"
       and options = None and requiresAuth = True and st = freshBrowser,
     OF refl h2 h3 h4]
  have a: "fst (apiCall (\<lambda>req. Inr ?r) ''/api/contacts/upload'' None True freshBrowser)
     = Inl (ApiErr \<lparr>message = ''Request failed with status 400'', status = Some 400,
                     statusText = Some ''Bad Request'', validationErrors = None\<rparr>)"
    by (simp add: brokenResponse_fields fallbackMessage_def statusMessage_def n)
  let ?r' = "brokenResponse 500 ''Internal Server Error''"
  have k2: "\<not> ok ?r'" and k3: "resp_status ?r' \<noteq> 401"
    and k4: "\<not> isJson ?r' \<or> (\<exists>t. resp_json ?r' = Inl t)"
    by (simp_all add: brokenResponse_fields)
  from apiCall_unread
    [where fetch = "\<lambda>req. Inr ?r'" and endpoint = "''/api/contacts/upload''"
       and options = None and requiresAuth = True and st = freshBrowser,
     OF refl k2 k3 k4]
  have b: "fst (apiCall (\<lambda>req. Inr ?r') ''/api/contacts/upload'' None True freshBrowser)
     = Inl (ApiErr \<lparr>message = ''Internal server error. Please try again later.'',
                     status = Some 500, statusText = Some ''Internal Server Error'',
                     validationErrors = None\<rparr>)"
    by (simp add: brokenResponse_fields fallbackMessage_table)
  have c: "statusMessage 400 [] None = ''Bad request. Please check your input.''"
    by (simp add: statusMessage_def)
  from a b c show ?thesis by simp
qed

text \<open>
  C5. Two responses with a listed status for which the typed error lacks what the claim
  promises. A 422 whose \<^verbatim>\<open>detail\<close> is the empty array gets the empty message: the join
  of no lines, which \<^verbatim>\<open>if (!validationErrors)\<close> lets through because an empty array is
  truthy. A 400 whose \<^verbatim>\<open>detail\<close> array holds a string makes the formatter throw a
  \<^verbatim>\<open>TypeError\<close> inside \<^verbatim>\<open>parseApiError\<close>; the outer \<^verbatim>\<open>catch\<close> reports it as a
  network error, with no status.
\<close>

theorem empty_or_malformed_detail_breaks_status_and_message:
  "fst (apiCall (\<lambda>req. Inr (jsonResponse 422 ''Unprocessable Entity'' (JObj [(''detail'', JArr [])])))
          ''/api/contacts/bulk'' None True freshBrowser)
     = Inl (ApiErr \<lparr>message = [], status = Some 422,
                     statusText = Some ''Unprocessable Entity'', validationErrors = Some []\<rparr>) \<and>
   fst (apiCall (\<lambda>req. Inr (jsonResponse 400 ''Bad Request'' (JObj [(''detail'', JArr [JStr ''bad row''])])))
          ''/api/contacts/bulk'' None True freshBrowser)
     = Inl (ApiErr \<lparr>message = ''Network error. Please check your internet connection.'',
                     status = None, statusText = None, validationErrors = None\<rparr>)"
proof -
  let ?d = "JObj [(''detail'', JArr (map toJson []))]"
  let ?r = "jsonResponse 422 ''Unprocessable Entity'' ?d"
  have h2: "\<not> ok ?r" and h3: "resp_status ?r \<noteq> 401" and h4: "isJson ?r"
    and h5: "resp_json ?r = Inr ?d"
    by (simp_all add: jsonResponse_fields)
  have h6: "getProp ?d ''detail'' = Some (JArr (map toJson []))" by simp
  from apiCall_parsed [where fetch = "\<lambda>req. Inr ?r" and endpoint = "''/api/contacts/bulk''"
          and options = None and requiresAuth = True and st = freshBrowser,
        OF refl h2 h3 h4 h5 parseApiError_array [OF h6 asValidationErrors_toJson, where r = ?r]]
  have a: "fst (apiCall (\<lambda>req. Inr ?r) ''/api/contacts/bulk'' None True freshBrowser)
     = Inl (ApiErr \<lparr>message = [], status = Some 422,
                     statusText = Some ''Unprocessable Entity'', validationErrors = Some []\<rparr>)"
    by (simp add: newVoizmaticApiError_def statusMessage_def jsonResponse_fields)
  let ?d' = "JObj [(''detail'', JArr [JStr ''bad row''])]"
  let ?r' = "jsonResponse 400 ''Bad Request'' ?d'"
  have n: "notOk w ?r' st = (TypeErr ''Cannot read properties of undefined (reading 'slice')'', st)" for w st
    by (simp add: notOk_def jsonResponse_fields parseApiError_def fieldLine_def Let_def)
  have b: "fst (apiCall (\<lambda>req. Inr ?r') ''/api/contacts/bulk'' None True freshBrowser)
     = Inl (ApiErr \<lparr>message = ''Network error. Please check your internet connection.'',
                     status = None, statusText = None, validationErrors = None\<rparr>)"
    by (simp add: apiCall_transport transport_notOk jsonResponse_fields n rethrow_def
        newVoizmaticApiError_def)
  from a b show ?thesis by simp
qed

section \<open>The session: 401 and calls without a token\<close>

text \<open>
  C2. When the response to \<^verbatim>\<open>apiCall\<close> has status 401, whatever its body and content
  type, the call is rejected with the typed error of status 401 and the message
  \<^verbatim>\<open>Session expired. Please login again.\<close>; in the state the rejection is delivered in,
  both token items are gone from \<^verbatim>\<open>localStorage\<close> (so \<^verbatim>\<open>getToken\<close> answers
  \<^verbatim>\<open>null\<close> and \<^verbatim>\<open>isTokenValid\<close> is false), the redirect to \<^verbatim>\<open>/\<close> is pending in a
  100 ms timer, and the address has not changed yet.
\<close>

theorem unauthorized_clears_token_and_schedules_redirect:
  assumes "fetch (apiCallRequest endpoint options requiresAuth st) = Inr r"
    and "resp_status r = 401"
    and "apiCall fetch endpoint options requiresAuth st = (res, st')"
  shows "res = Inl (ApiErr \<lparr>message = ''Session expired. Please login again.'',
                           status = Some 401, statusText = Some (resp_statusText r),
                           validationErrors = None\<rparr>) \<and>
         localStorage st' = (localStorage st)(TOKEN_KEY := None, TOKEN_EXPIRY_KEY := None) \<and>
         getToken st' = None \<and>
         \<not> isTokenValid dateParse now st' \<and>
         timers st' = timers st @ [(100, ''/'')] \<and>
         href st' = href st"
proof -
  from assms have r: "res = Inl (ApiErr \<lparr>message = ''Session expired. Please login again.'',
                           status = Some 401, statusText = Some (resp_statusText r),
                           validationErrors = None\<rparr>)"
    and s: "st' = st\<lparr>fetched := fetched st @ [apiCallRequest endpoint options requiresAuth st],
                     localStorage := (localStorage st)(TOKEN_KEY := None, TOKEN_EXPIRY_KEY := None),
                     timers := timers st @ [(100, ''/'')]\<rparr>"
    by (simp_all add: apiCall_transport transport_401)
  have k: "localStorage st' TOKEN_KEY = None"
    by (simp add: s)
  from k have "getToken st' = None" "\<not> isTokenValid dateParse now st'"
    by (simp_all add: getToken_def isTokenValid_def)
  with r s show ?thesis by simp
qed

theorem unauthorized_clears_token_and_schedules_redirect_witness:
  "resp_status (jsonResponse 401 ''Unauthorized'' (JObj [(''detail'', JStr ''Token revoked'')])) = 401 \<and>
   getToken loggedInBrowser = Some ''tok-123'' \<and>
   fst (apiCall (\<lambda>req. Inr (jsonResponse 401 ''Unauthorized'' (JObj [(''detail'', JStr ''Token revoked'')])))
          ''/api/campaigns'' None True loggedInBrowser)
     = Inl (ApiErr \<lparr>message = ''Session expired. Please login again.'',
                     status = Some 401, statusText = Some ''Unauthorized'',
                     validationErrors = None\<rparr>) \<and>
   getToken (snd (apiCall (\<lambda>req. Inr (jsonResponse 401 ''Unauthorized'' (JObj [(''detail'', JStr ''Token revoked'')])))
          ''/api/campaigns'' None True loggedInBrowser)) = None \<and>
   timers (snd (apiCall (\<lambda>req. Inr (jsonResponse 401 ''Unauthorized'' (JObj [(''detail'', JStr ''Token revoked'')])))
          ''/api/campaigns'' None True loggedInBrowser)) = [(100, ''/'')] \<and>
   href (snd (apiCall (\<lambda>req. Inr (jsonResponse 401 ''Unauthorized'' (JObj [(''detail'', JStr ''Token revoked'')])))
          ''/api/campaigns'' None True loggedInBrowser)) = ''/dashboard''"
proof -
  let ?r = "jsonResponse 401 ''Unauthorized'' (JObj [(''detail'', JStr ''Token revoked'')])"
  let ?call = "apiCall (\<lambda>req. Inr ?r) ''/api/campaigns'' None True loggedInBrowser"
  have h2: "resp_status ?r = 401" by (simp add: jsonResponse_fields)
  have t: "getToken loggedInBrowser = Some ''tok-123''"
    by (simp add: getToken_def loggedInBrowser_def freshBrowser_def TOKEN_KEY_def TOKEN_EXPIRY_KEY_def)
  from unauthorized_clears_token_and_schedules_redirect
    [where fetch = "\<lambda>req. Inr ?r" and endpoint = "''/api/campaigns''" and options = None
       and requiresAuth = True and st = loggedInBrowser and res = "fst ?call" and st' = "snd ?call"
       and dateParse = "\<lambda>s. None" and now = 0,
     OF refl h2]
  have "fst ?call = Inl (ApiErr \<lparr>message = ''Session expired. Please login again.'',
                     status = Some 401, statusText = Some ''Unauthorized'',
                     validationErrors = None\<rparr>) \<and>
        getToken (snd ?call) = None \<and> timers (snd ?call) = [(100, ''/'')] \<and>
        href (snd ?call) = ''/dashboard''"
    by (simp add: jsonResponse_fields loggedInBrowser_def freshBrowser_def)
  with h2 t show ?thesis by blast
qed

lemma assign_keys: "fst ` set (assign k v hs) = insert k (fst ` set hs)"
  by (induction k v hs rule: assign.induct) (simp_all add: insert_commute)

lemma spread_keys: "fst ` set (spread base extra) = fst ` set base \<union> fst ` set extra"
  unfolding spread_def
proof (induction extra arbitrary: base)
  case Nil
  show ?case by simp
next
  case (Cons x extra)
  obtain k v where x: "x = (k, v)" by (cases x)
  have "fst ` set (fold (\<lambda>(k, v). assign k v) extra (assign k v base))
          = insert k (fst ` set base) \<union> fst ` set extra"
    by (simp only: Cons.IH assign_keys)
  then show ?case by (simp add: x)
qed

lemma authHeaders_no_token: "getToken st = None \<Longrightarrow> authHeaders requiresAuth st hs = hs"
  by (simp add: authHeaders_def)

lemma notOk_fetched: "fetched (snd (notOk w r st)) = fetched st"
  by (simp add: notOk_def split: sum.splits prod.splits)

lemma transport_fetched:
  assumes "\<And>r. fetched (snd (success r)) = fetched st1"
  shows "fetched (snd (transport w m1 m2 success outcome st1)) = fetched st1"
proof (cases outcome)
  case (Inl t)
  then show ?thesis by (simp add: transport_reject)
next
  case (Inr r)
  show ?thesis
  proof (cases "resp_status r = 401")
    case True
    then show ?thesis using Inr by (simp add: transport_401)
  next
    case False
    show ?thesis
    proof (cases "ok r")
      case True
      obtain res s where s: "success r = (res, s)" by (cases "success r")
      with assms [of r] have "fetched s = fetched st1" by simp
      with Inr False True s show ?thesis
        by (cases res) (simp_all add: transport_def)
    next
      case nok: False
      with Inr False show ?thesis by (simp add: transport_notOk notOk_fetched)
    qed
  qed
qed

lemma transport_rejected:
  assumes "fst (transport w m1 m2 success outcome st1) = Inl t"
  shows "failure outcome \<or> (\<exists>r e. outcome = Inr r \<and> ok r \<and> fst (success r) = Inl e)"
proof (cases outcome)
  case (Inl e)
  then show ?thesis by (simp add: failure_def)
next
  case (Inr r)
  show ?thesis
  proof (cases "ok r")
    case False
    with Inr show ?thesis by (simp add: failure_def)
  next
    case True
    obtain res s where s: "success r = (res, s)" by (cases "success r")
    from assms Inr True s obtain e where "res = Inl e"
      by (cases res) (simp_all add: transport_ok)
    with Inr True s show ?thesis by simp
  qed
qed

lemma transport_fulfilled:
  assumes "ok r" and "success r = (Inr v, st2)"
  shows "transport w m1 m2 success (Inr r) st1 = (Inr v, st2)"
  using assms by (simp add: transport_ok)

text \<open>
  C10. With no token stored, a call with \<^verbatim>\<open>requiresAuth = true\<close> is not stopped
  before the network. Each wrapper builds its full request - address, method, body and
  headers - without an \<^verbatim>\<open>Authorization\<close> header (\<^verbatim>\<open>apiCall\<close> sends the content type
  and the caller's own headers, the three file wrappers no header at all), hands exactly
  that one request to \<^verbatim>\<open>fetch\<close>, and is the very call with \<^verbatim>\<open>requiresAuth = false\<close>.
  The outcome depends on nothing but what \<^verbatim>\<open>fetch\<close> answers to that request: a 2xx
  answer whose body can be read is returned to the caller (for \<^verbatim>\<open>apiDownload\<close>, saved
  under the file name), a rejected \<^verbatim>\<open>fetch\<close> or a status outside 200-299 gives the typed
  error, and the call is rejected in no other case than these and the 2xx body that cannot be
  read.
\<close>

theorem missing_token_still_sends_request:
  assumes "getToken st = None"
  shows "apiCallRequest endpoint options True st =
           \<lparr>req_url = API_BASE_URL @ endpoint,
            req_method = (case options of None \<Rightarrow> None | Some opts \<Rightarrow> init_method opts),
            req_body = (case options of None \<Rightarrow> None | Some opts \<Rightarrow> init_body opts),
            req_headers = spread [(''Content-Type'', ''application/json'')] (callerHeaders options)\<rparr> \<and>
         apiUploadRequest endpoint formData True st =
           \<lparr>req_url = API_BASE_URL @ endpoint, req_method = Some ''POST'',
            req_body = Some (FormData formData), req_headers = []\<rparr> \<and>
         apiDownloadRequest endpoint True st =
           \<lparr>req_url = API_BASE_URL @ endpoint, req_method = Some ''GET'',
            req_body = None, req_headers = []\<rparr> \<and>
         (''Authorization'' \<notin> fst ` set (callerHeaders options) \<longrightarrow>
            ''Authorization'' \<notin> fst ` set (req_headers (apiCallRequest endpoint options True st))) \<and>
         apiCall fetch endpoint options True st = apiCall fetch endpoint options False st \<and>
         apiUpload fetch endpoint formData True st = apiUpload fetch endpoint formData False st \<and>
         apiDownload fetch endpoint filename True st = apiDownload fetch endpoint filename False st \<and>
         apiDownloadBlob fetch endpoint True st = apiDownloadBlob fetch endpoint False st \<and>
         fetched (snd (apiCall fetch endpoint options True st))
           = fetched st @ [apiCallRequest endpoint options True st] \<and>
         fetched (snd (apiUpload fetch endpoint formData True st))
           = fetched st @ [apiUploadRequest endpoint formData True st] \<and>
         fetched (snd (apiDownload fetch endpoint filename True st))
           = fetched st @ [apiDownloadRequest endpoint True st] \<and>
         fetched (snd (apiDownloadBlob fetch endpoint True st))
           = fetched st @ [apiDownloadRequest endpoint True st] \<and>
         (fetch' (apiCallRequest endpoint options True st)
            = fetch (apiCallRequest endpoint options True st) \<longrightarrow>
            apiCall fetch' endpoint options True st = apiCall fetch endpoint options True st) \<and>
         (fetch' (apiUploadRequest endpoint formData True st)
            = fetch (apiUploadRequest endpoint formData True st) \<longrightarrow>
            apiUpload fetch' endpoint formData True st = apiUpload fetch endpoint formData True st) \<and>
         (fetch' (apiDownloadRequest endpoint True st) = fetch (apiDownloadRequest endpoint True st) \<longrightarrow>
            apiDownload fetch' endpoint filename True st = apiDownload fetch endpoint filename True st \<and>
            apiDownloadBlob fetch' endpoint True st = apiDownloadBlob fetch endpoint True st) \<and>
         (fetch (apiCallRequest endpoint options True st) = Inr r \<and> ok r \<and> isJson r \<and>
          resp_json r = Inr v \<longrightarrow>
            apiCall fetch endpoint options True st =
              (Inr v, st\<lparr>fetched := fetched st @ [apiCallRequest endpoint options True st]\<rparr>)) \<and>
         (fetch (apiCallRequest endpoint options True st) = Inr r \<and> ok r \<and> \<not> isJson r \<longrightarrow>
            apiCall fetch endpoint options True st =
              (Inr (JObj []), st\<lparr>fetched := fetched st @ [apiCallRequest endpoint options True st]\<rparr>)) \<and>
         (fetch (apiUploadRequest endpoint formData True st) = Inr r \<and> ok r \<and>
          resp_json r = Inr v \<longrightarrow>
            apiUpload fetch endpoint formData True st =
              (Inr v, st\<lparr>fetched := fetched st @ [apiUploadRequest endpoint formData True st]\<rparr>)) \<and>
         (fetch (apiDownloadRequest endpoint True st) = Inr r \<and> ok r \<and> resp_blob r = Inr b \<longrightarrow>
            apiDownload fetch endpoint filename True st =
              (Inr (), st\<lparr>fetched := fetched st @ [apiDownloadRequest endpoint True st],
                          saved := saved st @ [(filename, b)]\<rparr>) \<and>
            apiDownloadBlob fetch endpoint True st =
              (Inr b, st\<lparr>fetched := fetched st @ [apiDownloadRequest endpoint True st]\<rparr>)) \<and>
         (failure (fetch (apiCallRequest endpoint options True st)) \<longrightarrow>
            (\<exists>a. fst (apiCall fetch endpoint options True st) = Inl (ApiErr a))) \<and>
         (failure (fetch (apiUploadRequest endpoint formData True st)) \<longrightarrow>
            (\<exists>a. fst (apiUpload fetch endpoint formData True st) = Inl (ApiErr a))) \<and>
         (failure (fetch (apiDownloadRequest endpoint True st)) \<longrightarrow>
            (\<exists>a. fst (apiDownload fetch endpoint filename True st) = Inl (ApiErr a)) \<and>
            (\<exists>a. fst (apiDownloadBlob fetch endpoint True st) = Inl (ApiErr a))) \<and>
         (fst (apiCall fetch endpoint options True st) = Inl t \<longrightarrow>
            failure (fetch (apiCallRequest endpoint options True st)) \<or>
            (\<exists>r e. fetch (apiCallRequest endpoint options True st) = Inr r \<and> ok r \<and> isJson r \<and>
                   resp_json r = Inl e)) \<and>
         (fst (apiUpload fetch endpoint formData True st) = Inl t \<longrightarrow>
            failure (fetch (apiUploadRequest endpoint formData True st)) \<or>
            (\<exists>r e. fetch (apiUploadRequest endpoint formData True st) = Inr r \<and> ok r \<and>
                   resp_json r = Inl e)) \<and>
         (fst (apiDownload fetch endpoint filename True st) = Inl t \<or>
          fst (apiDownloadBlob fetch endpoint True st) = Inl t \<longrightarrow>
            failure (fetch (apiDownloadRequest endpoint True st)) \<or>
            (\<exists>r e. fetch (apiDownloadRequest endpoint True st) = Inr r \<and> ok r \<and>
                   resp_blob r = Inl e))"
proof -
  have q1: "apiCallRequest endpoint options True st = apiCallRequest endpoint options False st"
    and q2: "apiUploadRequest endpoint formData True st = apiUploadRequest endpoint formData False st"
    and q3: "apiDownloadRequest endpoint True st = apiDownloadRequest endpoint False st"
    using assms
    by (simp_all add: apiCallRequest_def apiUploadRequest_def apiDownloadRequest_def
        authHeaders_no_token)
  have req1: "apiCallRequest endpoint options True st =
           \<lparr>req_url = API_BASE_URL @ endpoint,
            req_method = (case options of None \<Rightarrow> None | Some opts \<Rightarrow> init_method opts),
            req_body = (case options of None \<Rightarrow> None | Some opts \<Rightarrow> init_body opts),
            req_headers = spread [(''Content-Type'', ''application/json'')] (callerHeaders options)\<rparr>"
    using assms by (simp add: apiCallRequest_def authHeaders_no_token)
  have req2: "apiUploadRequest endpoint formData True st =
           \<lparr>req_url = API_BASE_URL @ endpoint, req_method = Some ''POST'',
            req_body = Some (FormData formData), req_headers = []\<rparr>"
    using assms by (simp add: apiUploadRequest_def authHeaders_no_token)
  have req3: "apiDownloadRequest endpoint True st =
           \<lparr>req_url = API_BASE_URL @ endpoint, req_method = Some ''GET'',
            req_body = None, req_headers = []\<rparr>"
    using assms by (simp add: apiDownloadRequest_def authHeaders_no_token)
  have k: "''Authorization'' \<notin> fst ` set (callerHeaders options) \<longrightarrow>
            ''Authorization'' \<notin> fst ` set (req_headers (apiCallRequest endpoint options True st))"
    by (simp add: req1 spread_keys)
  have e1: "apiCall fetch endpoint options True st = apiCall fetch endpoint options False st"
    and e2: "apiUpload fetch endpoint formData True st = apiUpload fetch endpoint formData False st"
    and e3: "apiDownload fetch endpoint filename True st = apiDownload fetch endpoint filename False st"
    and e4: "apiDownloadBlob fetch endpoint True st = apiDownloadBlob fetch endpoint False st"
    by (simp_all only: apiCall_transport apiUpload_transport apiDownload_transport
        apiDownloadBlob_transport q1 q2 q3)
  have f1: "fetched (snd (apiCall fetch endpoint options True st))
           = fetched st @ [apiCallRequest endpoint options True st]"
    and f2: "fetched (snd (apiUpload fetch endpoint formData True st))
           = fetched st @ [apiUploadRequest endpoint formData True st]"
    and f3: "fetched (snd (apiDownload fetch endpoint filename True st))
           = fetched st @ [apiDownloadRequest endpoint True st]"
    and f4: "fetched (snd (apiDownloadBlob fetch endpoint True st))
           = fetched st @ [apiDownloadRequest endpoint True st]"
    by (simp_all add: apiCall_transport apiUpload_transport apiDownload_transport
        apiDownloadBlob_transport transport_fetched split: sum.splits)
  have d1: "fetch' (apiCallRequest endpoint options True st)
            = fetch (apiCallRequest endpoint options True st) \<longrightarrow>
            apiCall fetch' endpoint options True st = apiCall fetch endpoint options True st"
    by (simp add: apiCall_transport)
  have d2: "fetch' (apiUploadRequest endpoint formData True st)
            = fetch (apiUploadRequest endpoint formData True st) \<longrightarrow>
            apiUpload fetch' endpoint formData True st = apiUpload fetch endpoint formData True st"
    by (simp add: apiUpload_transport)
  have d3: "fetch' (apiDownloadRequest endpoint True st) = fetch (apiDownloadRequest endpoint True st) \<longrightarrow>
            apiDownload fetch' endpoint filename True st = apiDownload fetch endpoint filename True st \<and>
            apiDownloadBlob fetch' endpoint True st = apiDownloadBlob fetch endpoint True st"
    by (simp add: apiDownload_transport apiDownloadBlob_transport)
  have s1: "fetch (apiCallRequest endpoint options True st) = Inr r \<and> ok r \<and> isJson r \<and>
          resp_json r = Inr v \<longrightarrow>
            apiCall fetch endpoint options True st =
              (Inr v, st\<lparr>fetched := fetched st @ [apiCallRequest endpoint options True st]\<rparr>)"
    by (simp add: apiCall_transport transport_fulfilled)
  have s2: "fetch (apiCallRequest endpoint options True st) = Inr r \<and> ok r \<and> \<not> isJson r \<longrightarrow>
            apiCall fetch endpoint options True st =
              (Inr (JObj []), st\<lparr>fetched := fetched st @ [apiCallRequest endpoint options True st]\<rparr>)"
    by (simp add: apiCall_transport transport_fulfilled)
  have s3: "fetch (apiUploadRequest endpoint formData True st) = Inr r \<and> ok r \<and>
          resp_json r = Inr v \<longrightarrow>
            apiUpload fetch endpoint formData True st =
              (Inr v, st\<lparr>fetched := fetched st @ [apiUploadRequest endpoint formData True st]\<rparr>)"
    by (simp add: apiUpload_transport transport_fulfilled)
  have s4: "fetch (apiDownloadRequest endpoint True st) = Inr r \<and> ok r \<and> resp_blob r = Inr b \<longrightarrow>
            apiDownload fetch endpoint filename True st =
              (Inr (), st\<lparr>fetched := fetched st @ [apiDownloadRequest endpoint True st],
                          saved := saved st @ [(filename, b)]\<rparr>) \<and>
            apiDownloadBlob fetch endpoint True st =
              (Inr b, st\<lparr>fetched := fetched st @ [apiDownloadRequest endpoint True st]\<rparr>)"
    by (simp add: apiDownload_transport apiDownloadBlob_transport transport_fulfilled)
  have x1: "failure (fetch (apiCallRequest endpoint options True st)) \<longrightarrow>
            (\<exists>a. fst (apiCall fetch endpoint options True st) = Inl (ApiErr a))"
    by (rule impI) (simp only: apiCall_transport transport_failure)
  have x2: "failure (fetch (apiUploadRequest endpoint formData True st)) \<longrightarrow>
            (\<exists>a. fst (apiUpload fetch endpoint formData True st) = Inl (ApiErr a))"
    by (rule impI) (simp only: apiUpload_transport transport_failure)
  have x3: "failure (fetch (apiDownloadRequest endpoint True st)) \<longrightarrow>
            (\<exists>a. fst (apiDownload fetch endpoint filename True st) = Inl (ApiErr a)) \<and>
            (\<exists>a. fst (apiDownloadBlob fetch endpoint True st) = Inl (ApiErr a))"
    by (rule impI) (simp only: apiDownload_transport apiDownloadBlob_transport transport_failure
        simp_thms)
  have y1: "fst (apiCall fetch endpoint options True st) = Inl t \<longrightarrow>
            failure (fetch (apiCallRequest endpoint options True st)) \<or>
            (\<exists>r e. fetch (apiCallRequest endpoint options True st) = Inr r \<and> ok r \<and> isJson r \<and>
                   resp_json r = Inl e)"
  proof
    assume "fst (apiCall fetch endpoint options True st) = Inl t"
    from transport_rejected [OF this [unfolded apiCall_transport]]
    show "failure (fetch (apiCallRequest endpoint options True st)) \<or>
            (\<exists>r e. fetch (apiCallRequest endpoint options True st) = Inr r \<and> ok r \<and> isJson r \<and>
                   resp_json r = Inl e)"
      by (auto split: if_splits)
  qed
  have y2: "fst (apiUpload fetch endpoint formData True st) = Inl t \<longrightarrow>
            failure (fetch (apiUploadRequest endpoint formData True st)) \<or>
            (\<exists>r e. fetch (apiUploadRequest endpoint formData True st) = Inr r \<and> ok r \<and>
                   resp_json r = Inl e)"
  proof
    assume "fst (apiUpload fetch endpoint formData True st) = Inl t"
    from transport_rejected [OF this [unfolded apiUpload_transport]]
    show "failure (fetch (apiUploadRequest endpoint formData True st)) \<or>
            (\<exists>r e. fetch (apiUploadRequest endpoint formData True st) = Inr r \<and> ok r \<and>
                   resp_json r = Inl e)"
      by auto
  qed
  have y3: "fst (apiDownload fetch endpoint filename True st) = Inl t \<or>
          fst (apiDownloadBlob fetch endpoint True st) = Inl t \<longrightarrow>
            failure (fetch (apiDownloadRequest endpoint True st)) \<or>
            (\<exists>r e. fetch (apiDownloadRequest endpoint True st) = Inr r \<and> ok r \<and>
                   resp_blob r = Inl e)"
  proof
    assume "fst (apiDownload fetch endpoint filename True st) = Inl t \<or>
          fst (apiDownloadBlob fetch endpoint True st) = Inl t"
    then show "failure (fetch (apiDownloadRequest endpoint True st)) \<or>
            (\<exists>r e. fetch (apiDownloadRequest endpoint True st) = Inr r \<and> ok r \<and>
                   resp_blob r = Inl e)"
    proof
      assume "fst (apiDownload fetch endpoint filename True st) = Inl t"
      from transport_rejected [OF this [unfolded apiDownload_transport]]
      show ?thesis
      proof (elim disjE exE conjE)
        assume "failure (fetch (apiDownloadRequest endpoint True st))"
        then show ?thesis by (rule disjI1)
      next
        fix r e
        assume "fetch (apiDownloadRequest endpoint True st) = Inr r" and "ok r"
          and "fst (case resp_blob r of
                      Inl error \<Rightarrow>
                        (Inl error,
                         st\<lparr>fetched := fetched st @ [apiDownloadRequest endpoint True st]\<rparr>)
                    | Inr blob \<Rightarrow>
                        (Inr (),
                         st\<lparr>fetched := fetched st @ [apiDownloadRequest endpoint True st],
                            saved := saved (st\<lparr>fetched := fetched st @ [apiDownloadRequest endpoint True st]\<rparr>) @ [(filename, blob)]\<rparr>))
               = (Inl e :: thrown + unit)"
        then show ?thesis by (cases "resp_blob r") auto
      qed
    next
      assume "fst (apiDownloadBlob fetch endpoint True st) = Inl t"
      from transport_rejected [OF this [unfolded apiDownloadBlob_transport]]
      show ?thesis by auto
    qed
  qed
  from req1 req2 req3 k e1 e2 e3 e4 f1 f2 f3 f4 d1 d2 d3 s1 s2 s3 s4 x1 x2 x3 y1 y2 y3
  show ?thesis by (intro conjI)
qed

theorem missing_token_still_sends_request_witness:
  "getToken freshBrowser = None \<and>
   apiCallRequest ''/api/campaigns'' None True freshBrowser =
     \<lparr>req_url = ''https://api.voizmatic.com/api/campaigns'', req_method = None, req_body = None,
      req_headers = [(''Content-Type'', ''application/json'')]\<rparr> \<and>
   apiUploadRequest ''/api/campaigns'' [(''file'', ''contacts.csv'')] True freshBrowser =
     \<lparr>req_url = ''https://api.voizmatic.com/api/campaigns'', req_method = Some ''POST'',
      req_body = Some (FormData [(''file'', ''contacts.csv'')]), req_headers = []\<rparr> \<and>
   apiDownloadRequest ''/api/campaigns'' True freshBrowser =
     \<lparr>req_url = ''https://api.voizmatic.com/api/campaigns'', req_method = Some ''GET'',
      req_body = None, req_headers = []\<rparr> \<and>
   ''Authorization'' \<notin> fst ` set (callerHeaders None) \<and>
   ''Authorization'' \<notin> fst ` set (req_headers (apiCallRequest ''/api/campaigns'' None True freshBrowser)) \<and>
   apiCall (\<lambda>req. Inr (jsonResponse 200 ''OK'' (JArr [JStr ''spring sale''])))
     ''/api/campaigns'' None True freshBrowser
   = (Inr (JArr [JStr ''spring sale'']),
      freshBrowser\<lparr>fetched :=
        [\<lparr>req_url = ''https://api.voizmatic.com/api/campaigns'', req_method = None, req_body = None,
          req_headers = [(''Content-Type'', ''application/json'')]\<rparr>]\<rparr>) \<and>
   apiDownloadBlob (\<lambda>req. Inr (jsonResponse 200 ''OK'' (JArr [JStr ''spring sale''])))
     ''/api/campaigns'' True freshBrowser
   = (Inr [],
      freshBrowser\<lparr>fetched :=
        [\<lparr>req_url = ''https://api.voizmatic.com/api/campaigns'', req_method = Some ''GET'',
          req_body = None, req_headers = []\<rparr>]\<rparr>) \<and>
   apiCall (\<lambda>req. Inr (jsonResponse 403 ''Forbidden'' (JObj [(''detail'', JStr ''Not authenticated'')])))
     ''/api/campaigns'' None True freshBrowser
   = apiCall (\<lambda>req. Inr (jsonResponse 403 ''Forbidden'' (JObj [(''detail'', JStr ''Not authenticated'')])))
     ''/api/campaigns'' None False freshBrowser \<and>
   failure (Inr (jsonResponse 403 ''Forbidden'' (JObj [(''detail'', JStr ''Not authenticated'')]))) \<and>
   (\<exists>a. fst (apiCall (\<lambda>req. Inr (jsonResponse 403 ''Forbidden'' (JObj [(''detail'', JStr ''Not authenticated'')])))
     ''/api/campaigns'' None True freshBrowser) = Inl (ApiErr a)) \<and>
   fetched (snd (apiCall (\<lambda>req. Inr (jsonResponse 403 ''Forbidden'' (JObj [(''detail'', JStr ''Not authenticated'')])))
     ''/api/campaigns'' None True freshBrowser))
   = [\<lparr>req_url = ''https://api.voizmatic.com/api/campaigns'', req_method = None, req_body = None,
       req_headers = [(''Content-Type'', ''application/json'')]\<rparr>]"
proof -
  let ?ok = "jsonResponse 200 ''OK'' (JArr [JStr ''spring sale''])"
  let ?served = "\<lambda>req :: request. Inr ?ok :: thrown + response"
  let ?no = "jsonResponse 403 ''Forbidden'' (JObj [(''detail'', JStr ''Not authenticated'')])"
  let ?refused = "\<lambda>req :: request. Inr ?no :: thrown + response"
  let ?q = "\<lparr>req_url = ''https://api.voizmatic.com/api/campaigns'', req_method = None,
             req_body = None, req_headers = [(''Content-Type'', ''application/json'')]\<rparr>"
  let ?g = "\<lparr>req_url = ''https://api.voizmatic.com/api/campaigns'', req_method = Some ''GET'',
             req_body = None, req_headers = []\<rparr>"
  have t: "getToken freshBrowser = None"
    by (simp add: getToken_def freshBrowser_def)
  note all = missing_token_still_sends_request
    [OF t, where endpoint = "''/api/campaigns''" and options = None
       and formData = "[(''file'', ''contacts.csv'')]" and filename = "''campaigns.csv''"
       and v = "JArr [JStr ''spring sale'']" and b = "[]" and t = "Thrown JNull"]
  note served = all [where fetch = ?served and fetch' = ?served and r = ?ok]
  note refused = all [where fetch = ?refused and fetch' = ?refused and r = ?no]
  from served [THEN conjunct1]
  have r1: "apiCallRequest ''/api/campaigns'' None True freshBrowser = ?q"
    by (simp add: API_BASE_URL_def callerHeaders_def spread_def)
  from served [THEN conjunct2, THEN conjunct1]
  have r2: "apiUploadRequest ''/api/campaigns'' [(''file'', ''contacts.csv'')] True freshBrowser =
     \<lparr>req_url = ''https://api.voizmatic.com/api/campaigns'', req_method = Some ''POST'',
      req_body = Some (FormData [(''file'', ''contacts.csv'')]), req_headers = []\<rparr>"
    by (simp add: API_BASE_URL_def)
  from served [THEN conjunct2, THEN conjunct2, THEN conjunct1]
  have r3: "apiDownloadRequest ''/api/campaigns'' True freshBrowser = ?g"
    by (simp add: API_BASE_URL_def)
  have d: "''Authorization'' \<notin> fst ` set (callerHeaders None)"
    by (simp add: callerHeaders_def)
  from served [THEN conjunct2, THEN conjunct2, THEN conjunct2, THEN conjunct1] d
  have d': "''Authorization'' \<notin> fst ` set (req_headers (apiCallRequest ''/api/campaigns'' None True freshBrowser))"
    by (rule mp)
  have okf: "ok ?ok" "isJson ?ok" "resp_json ?ok = Inr (JArr [JStr ''spring sale''])"
    by (simp_all add: jsonResponse_fields)
  have okb: "resp_blob ?ok = Inr []"
    by (simp add: jsonResponse_def)
  have "apiCall ?served ''/api/campaigns'' None True freshBrowser =
          (Inr (JArr [JStr ''spring sale'']),
           freshBrowser\<lparr>fetched := fetched freshBrowser
              @ [apiCallRequest ''/api/campaigns'' None True freshBrowser]\<rparr>)"
    by (rule served [THEN conjunct2, THEN conjunct2, THEN conjunct2, THEN conjunct2, THEN conjunct2, THEN conjunct2, THEN conjunct2, THEN conjunct2, THEN conjunct2, THEN conjunct2, THEN conjunct2, THEN conjunct2, THEN conjunct2, THEN conjunct2, THEN conjunct2, THEN conjunct1, THEN mp]) (intro conjI refl okf)
  then have s1: "apiCall ?served ''/api/campaigns'' None True freshBrowser =
          (Inr (JArr [JStr ''spring sale'']), freshBrowser\<lparr>fetched := [?q]\<rparr>)"
    by (simp only: r1) (simp add: freshBrowser_def)
  have "apiDownload ?served ''/api/campaigns'' ''campaigns.csv'' True freshBrowser =
              (Inr (), freshBrowser\<lparr>fetched := fetched freshBrowser
                           @ [apiDownloadRequest ''/api/campaigns'' True freshBrowser],
                          saved := saved freshBrowser @ [(''campaigns.csv'', [])]\<rparr>) \<and>
        apiDownloadBlob ?served ''/api/campaigns'' True freshBrowser =
          (Inr [],
           freshBrowser\<lparr>fetched := fetched freshBrowser
              @ [apiDownloadRequest ''/api/campaigns'' True freshBrowser]\<rparr>)"
    by (rule served [THEN conjunct2, THEN conjunct2, THEN conjunct2, THEN conjunct2, THEN conjunct2, THEN conjunct2, THEN conjunct2, THEN conjunct2, THEN conjunct2, THEN conjunct2, THEN conjunct2, THEN conjunct2, THEN conjunct2, THEN conjunct2, THEN conjunct2, THEN conjunct2, THEN conjunct2, THEN conjunct2, THEN conjunct1, THEN mp]) (intro conjI refl okf okb)
  then have "apiDownloadBlob ?served ''/api/campaigns'' True freshBrowser =
          (Inr [],
           freshBrowser\<lparr>fetched := fetched freshBrowser
              @ [apiDownloadRequest ''/api/campaigns'' True freshBrowser]\<rparr>)"
    by (rule conjunct2)
  then have s2: "apiDownloadBlob ?served ''/api/campaigns'' True freshBrowser =
          (Inr [], freshBrowser\<lparr>fetched := [?g]\<rparr>)"
    by (simp only: r3) (simp add: freshBrowser_def)
  have a: "apiCall ?refused ''/api/campaigns'' None True freshBrowser
                  = apiCall ?refused ''/api/campaigns'' None False freshBrowser"
    by (rule refused [THEN conjunct2, THEN conjunct2, THEN conjunct2, THEN conjunct2, THEN conjunct1])
  have fl: "failure (Inr ?no)"
    by (simp add: failure_def jsonResponse_fields)
  have x: "\<exists>a. fst (apiCall ?refused ''/api/campaigns'' None True freshBrowser) = Inl (ApiErr a)"
    by (rule refused [THEN conjunct2, THEN conjunct2, THEN conjunct2, THEN conjunct2, THEN conjunct2, THEN conjunct2, THEN conjunct2, THEN conjunct2, THEN conjunct2, THEN conjunct2, THEN conjunct2, THEN conjunct2, THEN conjunct2, THEN conjunct2, THEN conjunct2, THEN conjunct2, THEN conjunct2, THEN conjunct2, THEN conjunct2, THEN conjunct1, THEN mp]) (rule fl)
  from refused [THEN conjunct2, THEN conjunct2, THEN conjunct2, THEN conjunct2, THEN conjunct2, THEN conjunct2, THEN conjunct2, THEN conjunct2, THEN conjunct1]
  have f: "fetched (snd (apiCall ?refused ''/api/campaigns'' None True freshBrowser)) = [?q]"
    by (simp only: r1) (simp add: freshBrowser_def)
  from t r1 r2 r3 d d' s1 s2 a fl x f show ?thesis by (intro conjI)
qed

section \<open>Token validity\<close>

lemma token_keys_differ: "TOKEN_KEY \<noteq> TOKEN_EXPIRY_KEY"
  by (simp add: TOKEN_KEY_def TOKEN_EXPIRY_KEY_def)

lemma isTokenValid_iff:
  "isTokenValid dateParse now st =
     (\<exists>token expiry t.
        localStorage st TOKEN_KEY = Some token \<and> token \<noteq> [] \<and>
        localStorage st TOKEN_EXPIRY_KEY = Some expiry \<and> expiry \<noteq> [] \<and>
        dateParse expiry = Some t \<and> now < t)"
  by (auto simp: isTokenValid_def split: option.splits)

lemma isTokenValid_setToken:
  assumes "token \<noteq> []" and "expiry \<noteq> []" and "dateParse expiry = Some t"
  shows "isTokenValid dateParse now (setToken token expiry st) = (now < t)"
  using assms token_keys_differ
  by (simp add: isTokenValid_def setToken_def)

lemma login_stores:
  assumes "fst (login fetch credentials st) = Inr response"
    and "getProp response ''access_token'' = Some (JStr token)"
    and "getProp response ''expires_at'' = Some (JStr expiry)"
  shows "\<exists>st1. snd (login fetch credentials st) = setToken token expiry st1"
proof -
  let ?call = "apiCall fetch ''/api/auth/login''
             (Some \<lparr>init_method = Some ''POST'', init_body = Some (TextBody credentials),
                    init_headers = None\<rparr>) False st"
  obtain res st1 where c: "?call = (res, st1)" by (cases ?call)
  show ?thesis
  proof (cases res)
    case (Inl error)
    with c assms(1) show ?thesis by (simp add: login_def)
  next
    case (Inr payload)
    from assms(2) have nn: "response \<noteq> JNull" by auto
    from c Inr assms(1) have "payload = response"
      by (cases payload) (simp_all add: login_def)
    with c Inr nn assms(2,3) have "snd (login fetch credentials st) = setToken token expiry st1"
      by (cases response) (simp_all add: login_def jsString_def)
    then show ?thesis by blast
  qed
qed

text \<open>
  C7 (amended). \<^verbatim>\<open>isTokenValid()\<close> is true exactly when a non-empty token and a
  non-empty expiry are stored and the expiry, as \<^verbatim>\<open>Date\<close> parses it, is strictly later
  than the current time. So after a login whose response carries a non-empty
  \<^verbatim>\<open>access_token\<close> and an \<^verbatim>\<open>expires_at\<close> that parses to the time \<open>expiryTime\<close>, it
  is true while the clock is before \<open>expiryTime\<close> and false from then on, in the same
  stored state. A stored empty token is not valid, whatever the expiry: see the
  counterexample below.
\<close>

theorem isTokenValid_needs_nonempty_token_and_future_expiry:
  "isTokenValid dateParse now st =
     (\<exists>token expiry t.
        localStorage st TOKEN_KEY = Some token \<and> token \<noteq> [] \<and>
        localStorage st TOKEN_EXPIRY_KEY = Some expiry \<and> expiry \<noteq> [] \<and>
        dateParse expiry = Some t \<and> now < t) \<and>
   (fst (login fetch credentials st) = Inr response \<and>
    getProp response ''access_token'' = Some (JStr accessToken) \<and> accessToken \<noteq> [] \<and>
    getProp response ''expires_at'' = Some (JStr expiresAt) \<and> expiresAt \<noteq> [] \<and>
    dateParse expiresAt = Some expiryTime \<longrightarrow>
      isTokenValid dateParse now (snd (login fetch credentials st)) = (now < expiryTime))"
proof -
  have "isTokenValid dateParse now (snd (login fetch credentials st)) = (now < expiryTime)"
    if h: "fst (login fetch credentials st) = Inr response"
      "getProp response ''access_token'' = Some (JStr accessToken)" "accessToken \<noteq> []"
      "getProp response ''expires_at'' = Some (JStr expiresAt)" "expiresAt \<noteq> []"
      "dateParse expiresAt = Some expiryTime"
  proof -
    from login_stores [OF h(1,2,4)] obtain st1
      where "snd (login fetch credentials st) = setToken accessToken expiresAt st1" by blast
    with isTokenValid_setToken [where dateParse = dateParse, OF h(3,5,6)] show ?thesis by simp
  qed
  with isTokenValid_iff show ?thesis by blast
qed

lemma sample_login:
  "login loginFetch c freshBrowser =
     (Inr (JObj [(''access_token'', JStr ''tok-123''), (''token_type'', JStr ''bearer''),
                   (''expires_at'', JStr ''2030-01-01T00:00:00Z'')]),
      setToken ''tok-123'' ''2030-01-01T00:00:00Z''
        (freshBrowser\<lparr>fetched := fetched freshBrowser @
           [apiCallRequest ''/api/auth/login''
             (Some \<lparr>init_method = Some ''POST'', init_body = Some (TextBody c),
                    init_headers = None\<rparr>) False freshBrowser]\<rparr>))"
  by (simp add: login_def apiCall_def loginFetch_def jsonResponse_fields Let_def jsString_def)

theorem isTokenValid_needs_nonempty_token_and_future_expiry_witness:
  "fst (login loginFetch ''{}'' freshBrowser)
     = Inr (JObj [(''access_token'', JStr ''tok-123''), (''token_type'', JStr ''bearer''),
                  (''expires_at'', JStr ''2030-01-01T00:00:00Z'')]) \<and>
   sampleDateParse ''2030-01-01T00:00:00Z'' = Some 1893456000000 \<and>
   isTokenValid sampleDateParse 1793577600000 (snd (login loginFetch ''{}'' freshBrowser)) \<and>
   \<not> isTokenValid sampleDateParse 1893456000000 (snd (login loginFetch ''{}'' freshBrowser)) \<and>
   \<not> isTokenValid sampleDateParse 1793577600000 freshBrowser"
proof -
  let ?resp = "JObj [(''access_token'', JStr ''tok-123''), (''token_type'', JStr ''bearer''),
                  (''expires_at'', JStr ''2030-01-01T00:00:00Z'')]"
  have l: "fst (login loginFetch ''{}'' freshBrowser) = Inr ?resp"
    by (simp add: sample_login)
  have p: "sampleDateParse ''2030-01-01T00:00:00Z'' = Some 1893456000000"
    by (simp add: sampleDateParse_def)
  have g: "getProp ?resp ''access_token'' = Some (JStr ''tok-123'')"
    "getProp ?resp ''expires_at'' = Some (JStr ''2030-01-01T00:00:00Z'')"
    by simp_all
  note inst = isTokenValid_needs_nonempty_token_and_future_expiry
    [where dateParse = sampleDateParse and fetch = loginFetch and credentials = "''{}''"
       and response = ?resp and accessToken = "''tok-123''"
       and expiresAt = "''2030-01-01T00:00:00Z''" and expiryTime = 1893456000000]
  from inst [where now = 1793577600000 and st = freshBrowser] l p g
  have a: "isTokenValid sampleDateParse 1793577600000 (snd (login loginFetch ''{}'' freshBrowser))"
    by simp
  from inst [where now = 1893456000000 and st = freshBrowser] l p g
  have b: "\<not> isTokenValid sampleDateParse 1893456000000 (snd (login loginFetch ''{}'' freshBrowser))"
    by simp
  from inst [where now = 1793577600000 and st = freshBrowser]
  have c: "\<not> isTokenValid sampleDateParse 1793577600000 freshBrowser"
    by (simp add: freshBrowser_def)
  from l p a b c show ?thesis by (intro conjI)
qed

theorem empty_token_is_invalid_counterexample:
  "getToken emptyTokenBrowser = Some [] \<and>
   localStorage emptyTokenBrowser TOKEN_EXPIRY_KEY = Some ''2030-01-01T00:00:00Z'' \<and>
   sampleDateParse ''2030-01-01T00:00:00Z'' = Some 1893456000000 \<and>
   (1793577600000 :: int) < 1893456000000 \<and>
   \<not> isTokenValid sampleDateParse 1793577600000 emptyTokenBrowser"
  by (simp add: getToken_def emptyTokenBrowser_def freshBrowser_def sampleDateParse_def
      isTokenValid_def token_keys_differ)

section \<open>The two renderings of a list of field errors\<close>

lemma getErrorMessage_lines:
  assumes "detail \<noteq> []" and "validationErrors e = Some detail"
    and "asValidationErrors detail = Some ves"
  shows "getErrorMessage (ApiErr e) = Inr (join [CHR 0x0A] (map line ves))"
  using assms(1,2) mapE_fieldLine [OF assms(3)]
  by (simp add: getErrorMessage_def getValidationErrorMessage_def)

text \<open>
  C9 (amended). For a typed error carrying a non-empty list whose entries all are
  well-typed field errors (members in any order, others allowed beside them),
  \<^verbatim>\<open>getErrorMessage\<close> is the lines \<^verbatim>\<open><field>: <msg>\<close> joined by newlines - the text
  \<^verbatim>\<open>ErrorAlert\<close> shows - and depends on the list alone, not on the message, status or
  status text. The form joined by \<^verbatim>\<open>; \<close> is the \<^verbatim>\<open>message\<close> that
  \<^verbatim>\<open>parseApiError\<close> builds from the same list (for a status whose message is not
  replaced). The two are equal for a list of one entry; for longer lists
  \<^verbatim>\<open>getErrorMessage\<close> is not the \<^verbatim>\<open>; \<close> form: see the counterexample below.
\<close>

theorem getErrorMessage_is_newline_joined:
  assumes "detail \<noteq> []" and "validationErrors e = Some detail"
    and "asValidationErrors detail = Some ves"
  shows "getErrorMessage (ApiErr e) = Inr (join [CHR 0x0A] (map line ves)) \<and>
         getErrorMessage (ApiErr (e\<lparr>message := m, status := s, statusText := t\<rparr>))
           = getErrorMessage (ApiErr e) \<and>
         (getProp d ''detail'' = Some (JArr detail) \<and>
          resp_status r \<notin> {401, 403, 404, 429, 500, 502, 503, 504} \<longrightarrow>
            (\<exists>a. parseApiError r (Some d) = Inr a \<and>
                 validationErrors a = Some detail \<and>
                 message a = join ''; '' (map line ves) \<and>
                 getErrorMessage (ApiErr (newVoizmaticApiError a))
                   = Inr (join [CHR 0x0A] (map line ves)))) \<and>
         (length detail = 1 \<longrightarrow> join ''; '' (map line ves) = join [CHR 0x0A] (map line ves))"
proof -
  from assms(1) asValidationErrors_Nil [OF assms(3)] have ne: "ves \<noteq> []" by simp
  have a: "getErrorMessage (ApiErr e) = Inr (join [CHR 0x0A] (map line ves))"
    by (rule getErrorMessage_lines [OF assms])
  have b: "getErrorMessage (ApiErr (e\<lparr>message := m, status := s, statusText := t\<rparr>))
           = getErrorMessage (ApiErr e)"
    using assms(1,2) by (simp add: a getErrorMessage_lines [OF _ _ assms(3)])
  have c: "\<exists>a. parseApiError r (Some d) = Inr a \<and>
                 validationErrors a = Some detail \<and>
                 message a = join ''; '' (map line ves) \<and>
                 getErrorMessage (ApiErr (newVoizmaticApiError a))
                   = Inr (join [CHR 0x0A] (map line ves))"
    if h: "getProp d ''detail'' = Some (JArr detail)"
      "resp_status r \<notin> {401, 403, 404, 429, 500, 502, 503, 504}"
  proof -
    have m: "statusMessage (resp_status r) (join ''; '' (map line ves)) (Some detail)
               = join ''; '' (map line ves)"
      using h(2) join_lines_nonempty [OF ne, of "''; ''"]
      by (simp add: statusMessage_def)
    show ?thesis
      using assms(1)
      by (simp add: parseApiError_array [OF h(1) assms(3)] m
          getErrorMessage_lines [OF _ _ assms(3)] newVoizmaticApiError_def)
  qed
  have d: "join ''; '' (map line ves) = join [CHR 0x0A] (map line ves)" if "length detail = 1"
    using that asValidationErrors_length [OF assms(3)] by (simp add: join_single)
  from a b c d show ?thesis by blast
qed

lemma sample_lines:
  "line phoneRequired = ''phone: required''"
  "line ageNotANumber = ''contacts.0.age: not a number''"
  by (simp_all add: line_def fieldName_def phoneRequired_def ageNotANumber_def)

theorem getErrorMessage_is_newline_joined_witness:
  "[phoneRequiredWire, toJson ageNotANumber] \<noteq> [] \<and>
   asValidationErrors [phoneRequiredWire, toJson ageNotANumber]
     = Some [phoneRequired, ageNotANumber] \<and>
   getErrorMessage (ApiErr \<lparr>message = ''phone: required; contacts.0.age: not a number'',
                            status = Some 422, statusText = Some ''Unprocessable Entity'',
                            validationErrors = Some [phoneRequiredWire, toJson ageNotANumber]\<rparr>)
     = Inr (''phone: required'' @ [CHR 0x0A] @ ''contacts.0.age: not a number'') \<and>
   getProp (JObj [(''detail'', JArr [phoneRequiredWire, toJson ageNotANumber])]) ''detail''
     = Some (JArr [phoneRequiredWire, toJson ageNotANumber]) \<and>
   (\<exists>a. parseApiError
          (jsonResponse 422 ''Unprocessable Entity''
             (JObj [(''detail'', JArr [phoneRequiredWire, toJson ageNotANumber])]))
          (Some (JObj [(''detail'', JArr [phoneRequiredWire, toJson ageNotANumber])])) = Inr a \<and>
        message a = ''phone: required; contacts.0.age: not a number'' \<and>
        getErrorMessage (ApiErr (newVoizmaticApiError a))
          = Inr (''phone: required'' @ [CHR 0x0A] @ ''contacts.0.age: not a number'')) \<and>
   length [toJson phoneRequired] = 1 \<and>
   join ''; '' (map line [phoneRequired]) = join [CHR 0x0A] (map line [phoneRequired])"
proof -
  let ?detail = "[phoneRequiredWire, toJson ageNotANumber]"
  let ?ves = "[phoneRequired, ageNotANumber]"
  let ?e = "\<lparr>message = ''phone: required; contacts.0.age: not a number'',
              status = Some 422, statusText = Some ''Unprocessable Entity'',
              validationErrors = Some ?detail\<rparr>"
  let ?d = "JObj [(''detail'', JArr ?detail)]"
  let ?r = "jsonResponse 422 ''Unprocessable Entity'' ?d"
  have n: "?detail \<noteq> []" by simp
  have v: "validationErrors ?e = Some ?detail" by simp
  have w: "asValidationError phoneRequiredWire = Some phoneRequired"
    by (simp add: asValidationError_def phoneRequiredWire_def phoneRequired_def)
  have dec: "asValidationErrors ?detail = Some ?ves"
    by (simp add: asValidationErrors_def asValidationError_toJson w)
  have g: "getProp ?d ''detail'' = Some (JArr ?detail)" by simp
  have c: "resp_status ?r \<notin> {401, 403, 404, 429, 500, 502, 503, 504}"
    by (simp add: jsonResponse_fields)
  note two = getErrorMessage_is_newline_joined
    [where detail = ?detail and ves = ?ves and e = ?e and m = "[]" and s = None and t = None
       and d = ?d and r = ?r,
     OF n v dec]
  have j1: "join ''; '' (map line ?ves) = ''phone: required; contacts.0.age: not a number''"
    by (simp add: sample_lines)
  have j2: "join [CHR 0x0A] (map line ?ves)
              = ''phone: required'' @ [CHR 0x0A] @ ''contacts.0.age: not a number''"
    by (simp add: sample_lines)
  from two have a: "getErrorMessage (ApiErr ?e)
           = Inr (''phone: required'' @ [CHR 0x0A] @ ''contacts.0.age: not a number'')"
    unfolding j2 by blast
  from two g c
  have b: "\<exists>a. parseApiError ?r (Some ?d) = Inr a \<and>
            message a = ''phone: required; contacts.0.age: not a number'' \<and>
            getErrorMessage (ApiErr (newVoizmaticApiError a))
              = Inr (''phone: required'' @ [CHR 0x0A] @ ''contacts.0.age: not a number'')"
    unfolding j1 j2 by blast
  have n1: "[toJson phoneRequired] \<noteq> []" and l1: "length [toJson phoneRequired] = 1"
    by simp_all
  have v1: "validationErrors phoneValidationError = Some [toJson phoneRequired]"
    by (simp add: phoneValidationError_def)
  have dec1: "asValidationErrors [toJson phoneRequired] = Some [phoneRequired]"
    using asValidationErrors_toJson [of "[phoneRequired]"] by simp
  from getErrorMessage_is_newline_joined
    [where detail = "[toJson phoneRequired]" and ves = "[phoneRequired]"
       and e = phoneValidationError and m = "[]" and s = None
       and t = None and d = ?d and r = ?r, OF n1 v1 dec1] l1
  have o: "join ''; '' (map line [phoneRequired]) = join [CHR 0x0A] (map line [phoneRequired])"
    by blast
  from n dec a g b l1 o show ?thesis by (intro conjI)
qed

theorem getErrorMessage_differs_from_summary_counterexample:
  "fst (apiCall
          (\<lambda>req. Inr (jsonResponse 422 ''Unprocessable Entity''
                         (JObj [(''detail'', JArr [toJson phoneRequired, toJson ageNotANumber])])))
          ''/api/contacts/bulk'' None True freshBrowser)
     = Inl (ApiErr \<lparr>message = ''phone: required; contacts.0.age: not a number'',
                     status = Some 422, statusText = Some ''Unprocessable Entity'',
                     validationErrors = Some [toJson phoneRequired, toJson ageNotANumber]\<rparr>) \<and>
   getErrorMessage (ApiErr \<lparr>message = ''phone: required; contacts.0.age: not a number'',
                            status = Some 422, statusText = Some ''Unprocessable Entity'',
                            validationErrors = Some [toJson phoneRequired, toJson ageNotANumber]\<rparr>)
     = Inr (''phone: required'' @ [CHR 0x0A] @ ''contacts.0.age: not a number'') \<and>
   getErrorMessage (ApiErr \<lparr>message = ''phone: required; contacts.0.age: not a number'',
                            status = Some 422, statusText = Some ''Unprocessable Entity'',
                            validationErrors = Some [toJson phoneRequired, toJson ageNotANumber]\<rparr>)
     \<noteq> Inr ''phone: required; contacts.0.age: not a number''"
proof -
  let ?ves = "[phoneRequired, ageNotANumber]"
  let ?d = "JObj [(''detail'', JArr (map toJson ?ves))]"
  let ?r = "jsonResponse 422 ''Unprocessable Entity'' ?d"
  let ?e = "\<lparr>message = ''phone: required; contacts.0.age: not a number'',
              status = Some 422, statusText = Some ''Unprocessable Entity'',
              validationErrors = Some (map toJson ?ves)\<rparr>"
  have h2: "\<not> ok ?r" and h3: "resp_status ?r \<noteq> 401" and h4: "isJson ?r"
    and h5: "resp_json ?r = Inr ?d"
    by (simp_all add: jsonResponse_fields)
  have h6: "getProp ?d ''detail'' = Some (JArr (map toJson ?ves))" by simp
  from apiCall_parsed [where fetch = "\<lambda>req. Inr ?r" and endpoint = "''/api/contacts/bulk''"
          and options = None and requiresAuth = True and st = freshBrowser,
        OF refl h2 h3 h4 h5 parseApiError_array [OF h6 asValidationErrors_toJson, where r = ?r]]
  have a: "fst (apiCall (\<lambda>req. Inr ?r) ''/api/contacts/bulk'' None True freshBrowser) = Inl (ApiErr ?e)"
    by (simp add: newVoizmaticApiError_def statusMessage_def jsonResponse_fields sample_lines)
  have b: "getErrorMessage (ApiErr ?e)
             = Inr (''phone: required'' @ [CHR 0x0A] @ ''contacts.0.age: not a number'')"
    using getErrorMessage_lines [where detail = "map toJson ?ves" and ves = ?ves and e = ?e,
        OF _ _ asValidationErrors_toJson]
    by (simp add: sample_lines)
  from a b show ?thesis by simp
qed

section \<open>Severity\<close>






end
